theory Spec2Isabelle
  imports Complex_Main
begin

section \<open>JavaScript values used by the two views\<close>

text \<open>
  The views are React components written in TypeScript.  Three kinds of run-time
  failure matter for them: reading a property of \<open>null\<close> (\<open>TypeError\<close>), and the two
  \<open>RangeError\<close>s of the built-ins they call (\<open>toFixed\<close> with more than 100 digits,
  \<open>toISOString\<close> on an invalid date).
\<close>

datatype js_error = TypeError | RangeError

text \<open>
  A JavaScript number is an IEEE-754 double.  A finite double is represented by its
  exact value, a rational; the three non-finite values are constructors of their own.
  The negative zero is identified with zero.
\<close>

datatype number = Finite rat | PosInf | NegInf | NaN

text \<open>
  A JavaScript string built by the views is a sequence of pieces: literal text, or
  the default conversion of a number to a string (what React applies to a number
  child, and what \<open>toFixed\<close> falls back to from \<open>10^21\<close> on), which is kept symbolic.
\<close>

datatype piece = Lit string | NumberToString number

type_synonym jsstring = "piece list"

text \<open>The text of a string all of whose pieces are literal.\<close>

fun literal_text :: "jsstring \<Rightarrow> string option" where
  "literal_text [] = Some ''''"
| "literal_text (Lit s # ps) = map_option ((@) s) (literal_text ps)"
| "literal_text (NumberToString x # ps) = None"

text \<open>Sequencing of computations that may throw: the first error wins.\<close>

definition and_then :: "js_error + 'a \<Rightarrow> ('a \<Rightarrow> js_error + 'b) \<Rightarrow> js_error + 'b" where
  "and_then r f = (case r of Inl e \<Rightarrow> Inl e | Inr v \<Rightarrow> f v)"

text \<open>Reading a property of a nullable object: \<open>null.field\<close> throws.\<close>

definition deref :: "'a option \<Rightarrow> js_error + 'a" where
  "deref obj = (case obj of None \<Rightarrow> Inl TypeError | Some v \<Rightarrow> Inr v)"

subsection \<open>\<open>Number.prototype.toFixed\<close>\<close>

text \<open>The decimal digits of a non-negative integer, most significant first.\<close>

function digits :: "int \<Rightarrow> string" where
  "digits n = (if n < 10 then [''0123456789'' ! nat n]
               else digits (n div 10) @ [''0123456789'' ! nat (n mod 10)])"
  by pat_completeness auto
termination
  by (relation "measure nat") auto

declare digits.simps [simp del]

text \<open>
  \<open>x.toFixed(f)\<close> as the language defines it: a non-finite \<open>x\<close> prints as its name; a
  finite one loses its sign to the prefix \<open>s\<close>; from \<open>10^21\<close> on the default conversion
  takes over; otherwise \<open>n\<close> is the integer with \<open>n / 10^f\<close> nearest to \<open>x\<close> (the larger
  one of two), its digits are padded with zeros to at least \<open>f + 1\<close> and the point is
  put before the last \<open>f\<close>.
\<close>

definition toFixed_string :: "number \<Rightarrow> nat \<Rightarrow> jsstring" where
  "toFixed_string x f =
     (case x of
        NaN \<Rightarrow> [Lit ''NaN'']
      | PosInf \<Rightarrow> [Lit ''Infinity'']
      | NegInf \<Rightarrow> [Lit ''-Infinity'']
      | Finite r \<Rightarrow>
          (let s = (if r < 0 then ''-'' else '''');
               a = \<bar>r\<bar>
           in if 10 ^ 21 \<le> a then [Lit s, NumberToString (Finite a)]
              else
                (let n = \<lfloor>a * 10 ^ f + 1 / 2\<rfloor>;
                     m = (if n = 0 then ''0'' else digits n);
                     m = (if f \<noteq> 0
                          then (let k = length m;
                                    m = (if k \<le> f then replicate (f + 1 - k) (CHR ''0'') @ m else m);
                                    k = (if k \<le> f then f + 1 else k)
                                in take (k - f) m @ ''.'' @ drop (k - f) m)
                          else m)
                 in [Lit (s @ m)])))"

definition toFixed :: "number \<Rightarrow> nat \<Rightarrow> js_error + jsstring" where
  "toFixed x f = (if 100 < f then Inl RangeError else Inr (toFixed_string x f))"

text \<open>The relational operator \<open>>\<close> on numbers: every comparison with \<open>NaN\<close> is false.\<close>

fun greater :: "number \<Rightarrow> number \<Rightarrow> bool" where
  "greater NaN y = False"
| "greater x NaN = False"
| "greater NegInf y = False"
| "greater x PosInf = False"
| "greater PosInf y = True"
| "greater x NegInf = True"
| "greater (Finite a) (Finite b) = (b < a)"

subsection \<open>Rounding to a double, and the product of two numbers\<close>

definition pow2 :: "int \<Rightarrow> rat" where
  "pow2 k = (if 0 \<le> k then 2 ^ nat k else 1 / 2 ^ nat (- k))"

text \<open>The number of binary digits of a positive integer; and, for \<open>r > 0\<close>, the exponent
  \<open>e\<close> with \<open>2^e \<le> r < 2^(e+1)\<close>, from the bit length of the integer part of \<open>r\<close> (when
  \<open>r \<ge> 1\<close>) or of \<open>1 / r\<close> rounded up, less one (when \<open>r < 1\<close>).\<close>

function bit_length :: "int \<Rightarrow> int" where
  "bit_length n = (if n \<le> 0 then 0 else bit_length (n div 2) + 1)"
  by pat_completeness auto
termination
  by (relation "measure nat") auto

declare bit_length.simps [simp del]

definition floor_log2 :: "rat \<Rightarrow> int" where
  "floor_log2 r =
     (if 1 \<le> r then bit_length \<lfloor>r\<rfloor> - 1 else - bit_length (\<lceil>1 / r\<rceil> - 1))"

definition round_half_even :: "rat \<Rightarrow> int" where
  "round_half_even q =
     (let n = \<lfloor>q\<rfloor>; d = q - of_int n
      in if d < 1 / 2 then n else if 1 / 2 < d then n + 1 else if even n then n else n + 1)"

text \<open>
  The double nearest to a rational, ties to the even significand (the rounding of
  every arithmetic operation and of reading a decimal literal): 53 significant bits,
  the exponent not below \<open>-1022\<close> (subnormals), infinity from \<open>2^1024\<close> on.
\<close>

definition fl_round :: "rat \<Rightarrow> number" where
  "fl_round r =
     (if r = 0 then Finite 0
      else
        (let e = max (floor_log2 \<bar>r\<bar>) (- 1022);
             ulp = pow2 (e - 52);
             v = of_int (round_half_even (\<bar>r\<bar> / ulp)) * ulp
         in if pow2 1024 \<le> v then (if r < 0 then NegInf else PosInf)
            else Finite (if r < 0 then - v else v)))"

fun sign :: "number \<Rightarrow> int" where
  "sign (Finite a) = (if a < 0 then - 1 else if a = 0 then 0 else 1)"
| "sign PosInf = 1"
| "sign NegInf = - 1"
| "sign NaN = 0"

text \<open>The operator \<open>*\<close>: the exact product rounded; \<open>NaN\<close> is contagious and is what zero
  times infinity gives.\<close>

fun multiply :: "number \<Rightarrow> number \<Rightarrow> number" where
  "multiply (Finite a) (Finite b) = fl_round (a * b)"
| "multiply NaN y = NaN"
| "multiply x NaN = NaN"
| "multiply x y =
     (if sign x * sign y = 0 then NaN else if 0 < sign x * sign y then PosInf else NegInf)"

section \<open>The Analyze view\<close>

text \<open>\<open>type Platform = "YouTube"\<close>: a type with one value, sent as that string.\<close>

datatype Platform = YouTube

fun Platform_string :: "Platform \<Rightarrow> string" where
  "Platform_string YouTube = ''YouTube''"

text \<open>
  Modelled from the spec: the response types \<open>SentimentAnalysisResponse\<close>,
  \<open>SalesLossPredictionResponse\<close> and \<open>DashboardResponse\<close> are imported from
  \<open>../api/types\<close>, which is not among the sources; their fields are the ones the
  views read, typed as the external-interface section gives them.
\<close>

record SentimentAnalysisResponse =
  average_sentiment :: number
  total_posts :: number
  negative_percentage :: number

record SalesLossPredictionResponse =
  predicted_drop_percentage :: number
  loss_probability :: number
  risk_level :: string
  explanation :: string

text \<open>The object returned by \<open>defaultDates\<close> and held in the \<open>range\<close> cell, with its fields
  \<open>start\<close> and \<open>end\<close>.\<close>

record DateRange =
  range_start :: string
  range_end :: string

text \<open>The eight \<open>useState\<close> cells of \<open>AnalyzePage\<close>.\<close>

record AnalyzeState =
  product :: string
  brand :: string
  platform :: Platform
  date_range :: DateRange
  loading :: bool
  sentiment :: "SentimentAnalysisResponse option"
  prediction :: "SalesLossPredictionResponse option"
  error :: string

definition AnalyzePage_init :: "DateRange \<Rightarrow> AnalyzeState" where
  "AnalyzePage_init r =
     \<lparr>product = ''NeoGadget'', brand = ''BlueNova'', platform = YouTube, date_range = r,
      loading = False, sentiment = None, prediction = None, error = ''''\<rparr>"

text \<open>
  What the \<open>submit\<close> handler does, in program order: calls of the state setters and
  requests handed to the API client.  A request carries its URL and its JSON body.
\<close>

datatype analyze_event =
    SetLoading bool
  | SetError string
  | SetSentiment SentimentAnalysisResponse
  | SetPrediction SalesLossPredictionResponse
  | Post string "(string \<times> string) list"

fun apply_event :: "AnalyzeState \<Rightarrow> analyze_event \<Rightarrow> AnalyzeState" where
  "apply_event st (SetLoading b) = st\<lparr>loading := b\<rparr>"
| "apply_event st (SetError msg) = st\<lparr>error := msg\<rparr>"
| "apply_event st (SetSentiment s) = st\<lparr>sentiment := Some s\<rparr>"
| "apply_event st (SetPrediction p) = st\<lparr>prediction := Some p\<rparr>"
| "apply_event st (Post url body) = st"

definition run :: "AnalyzeState \<Rightarrow> analyze_event list \<Rightarrow> AnalyzeState" where
  "run st evs = foldl apply_event st evs"

text \<open>The object literal both requests send, built from the state the handler closed over.\<close>

definition request_body :: "AnalyzeState \<Rightarrow> (string \<times> string) list" where
  "request_body st =
     [(''product_name'', product st),
      (''brand_name'', brand st),
      (''platform'', Platform_string (platform st)),
      (''start_date'', range_start (date_range st)),
      (''end_date'', range_end (date_range st))]"

text \<open>
  \<open>submit\<close>.  Each \<open>await\<close> either yields a response (\<open>Inr\<close>) or throws (\<open>Inl\<close>); the two
  outcomes are arguments, and the second one is looked at only where the code reaches
  the second \<open>await\<close>.  \<open>formatError\<close> is imported from \<open>../api/client\<close> and is a
  parameter.  The \<open>catch\<close> block handles a throw of either \<open>await\<close>, the \<open>finally\<close> block
  runs on every path.
\<close>

definition submit ::
  "('err \<Rightarrow> string) \<Rightarrow> AnalyzeState \<Rightarrow> 'err + SentimentAnalysisResponse \<Rightarrow>
   'err + SalesLossPredictionResponse \<Rightarrow> analyze_event list" where
  "submit formatError st respA respB =
     [SetLoading True, SetError ''''] @
     (Post ''/analyze-sentiment'' (request_body st) #
      (case respA of
         Inl err \<Rightarrow> [SetError (formatError err)]
       | Inr sentimentResp \<Rightarrow>
           SetSentiment sentimentResp #
           Post ''/predict-sales-loss'' (request_body st) #
           (case respB of
              Inl err \<Rightarrow> [SetError (formatError err)]
            | Inr predictionResp \<Rightarrow> [SetPrediction predictionResp]))) @
     [SetLoading False]"

definition after_submit ::
  "('err \<Rightarrow> string) \<Rightarrow> AnalyzeState \<Rightarrow> 'err + SentimentAnalysisResponse \<Rightarrow>
   'err + SalesLossPredictionResponse \<Rightarrow> AnalyzeState" where
  "after_submit formatError st respA respB = run st (submit formatError st respA respB)"

fun is_SetLoading :: "analyze_event \<Rightarrow> bool" where
  "is_SetLoading (SetLoading b) = True"
| "is_SetLoading e = False"

subsection \<open>What \<open>AnalyzePage\<close> renders\<close>

text \<open>
  The rendered tree, reduced to the elements whose presence or content depends on
  the state.  A text element holds its JSX children in order.
\<close>

datatype element =
    LoadingSkeleton nat
  | Text jsstring
  | Input string string bool
  | Button string bool
  | ResultCard string "jsstring list"
  | KPICard string jsstring "string option" string
  | TrendChart "(string \<times> number) list"
  | DistributionChart "(string \<times> number) list" "string list"
  | VolumeChart "(string \<times> number) list"
  | SalesChart "(string \<times> number \<times> number) list"
  | InsightItem string
  | AlertBanner string string
  | ChatPanel

text \<open>The character U+00B7 of the two detail lines, as its UTF-8 bytes.\<close>

definition middle_dot :: string where
  "middle_dot = [CHR 0xC2, CHR 0xB7]"


text \<open>The two result cards and the button below them: the block after
  \<open>!loading && sentiment && prediction &&\<close>.  It reads fields of both responses.\<close>

definition results_cards :: "AnalyzeState \<Rightarrow> js_error + element list" where
  "results_cards st =
     and_then (deref (sentiment st)) (\<lambda>s.
     and_then (deref (prediction st)) (\<lambda>p.
     and_then (toFixed (average_sentiment s) 2) (\<lambda>avg.
     and_then (toFixed (negative_percentage s) 1) (\<lambda>neg.
     and_then (toFixed (predicted_drop_percentage p) 1) (\<lambda>drop.
     and_then (toFixed (multiply (loss_probability p) (Finite 100)) 1) (\<lambda>prob.
       Inr [ResultCard ''Sentiment''
              [avg @ [Lit '' score''],
               [NumberToString (total_posts s), Lit ('' posts '' @ middle_dot), Lit '' ''] @
               neg @ [Lit ''% negative'']],
            ResultCard ''Prediction''
              [drop @ [Lit ''% projected drop''],
               [Lit ''Loss probability ''] @ prob @
               [Lit (''% '' @ middle_dot @ '' Risk''), Lit '' '', Lit (risk_level p)],
               [Lit (explanation p)]],
            Button ''Open Dashboard'' False]))))))"

definition results_panel :: "AnalyzeState \<Rightarrow> js_error + element list" where
  "results_panel st =
     and_then
       (if \<not> loading st \<and> sentiment st \<noteq> None \<and> prediction st \<noteq> None
        then results_cards st else Inr [])
       (\<lambda>cards.
          Inr ((if loading st then [LoadingSkeleton 5] else []) @
               cards @
               (if \<not> loading st \<and> sentiment st = None
                then [Text [Lit ''Run an analysis to see sentiment and risk results.'']]
                else [])))"

fun is_ResultCard :: "element \<Rightarrow> bool" where
  "is_ResultCard (ResultCard title lines) = True"
| "is_ResultCard e = False"


section \<open>The Dashboard view\<close>

text \<open>Field and cell names that the Analyze view already uses carry a prefix here
  (\<open>kpi_\<close> for the KPI block, \<open>dash_\<close> for the state cells \<open>error\<close> and \<open>loading\<close>).\<close>

record Kpis =
  kpi_average_sentiment :: number
  kpi_negative_percentage :: number
  predicted_sales_drop :: number
  kpi_risk_level :: string

text \<open>The series are arrays of objects, given here as tuples of their fields in the
  order \<open>date\<close>, then the plotted values; the distribution is an object, given as its
  entries.  The alerts are read through \<open>?.\<close>, so their absence is allowed for.\<close>

record DashboardResponse =
  kpis :: Kpis
  sentiment_trend :: "(string \<times> number) list"
  sentiment_distribution :: "(string \<times> number) list"
  comment_volume :: "(string \<times> number) list"
  sales_series :: "(string \<times> number \<times> number) list"
  ai_insights :: "string list"
  alerts :: "string list option"

record DashboardState =
  data :: "DashboardResponse option"
  dash_error :: string
  dash_loading :: bool


datatype dashboard_event =
    SetLoadingD bool
  | SetErrorD string
  | SetData DashboardResponse
  | Get string "(string \<times> string) list"

fun apply_dashboard_event :: "DashboardState \<Rightarrow> dashboard_event \<Rightarrow> DashboardState" where
  "apply_dashboard_event st (SetLoadingD b) = st\<lparr>dash_loading := b\<rparr>"
| "apply_dashboard_event st (SetErrorD msg) = st\<lparr>dash_error := msg\<rparr>"
| "apply_dashboard_event st (SetData d) = st\<lparr>data := Some d\<rparr>"
| "apply_dashboard_event st (Get url params) = st"

definition run_dashboard :: "DashboardState \<Rightarrow> dashboard_event list \<Rightarrow> DashboardState" where
  "run_dashboard st evs = foldl apply_dashboard_event st evs"

text \<open>\<open>fetchData\<close>, with the outcome of its one \<open>await\<close> as an argument.\<close>

definition fetchData :: "('err \<Rightarrow> string) \<Rightarrow> 'err + DashboardResponse \<Rightarrow> dashboard_event list" where
  "fetchData formatError resp =
     [SetLoadingD True, SetErrorD ''''] @
     (Get ''/get-dashboard-data''
        [(''product_name'', ''NeoGadget''), (''brand_name'', ''BlueNova''),
         (''platform'', ''Twitter'')] #
      (case resp of
         Inl err \<Rightarrow> [SetErrorD (formatError err)]
       | Inr d \<Rightarrow> [SetData d])) @
     [SetLoadingD False]"

text \<open>The effect run once after the first render, and the click handler of the Refresh
  button: both are \<open>fetchData\<close>.\<close>

definition useEffect_mount :: "('err \<Rightarrow> string) \<Rightarrow> 'err + DashboardResponse \<Rightarrow> dashboard_event list" where
  "useEffect_mount formatError resp = fetchData formatError resp"

definition Refresh_onClick :: "('err \<Rightarrow> string) \<Rightarrow> 'err + DashboardResponse \<Rightarrow> dashboard_event list" where
  "Refresh_onClick formatError resp = fetchData formatError resp"

definition after_fetchData ::
  "('err \<Rightarrow> string) \<Rightarrow> DashboardState \<Rightarrow> 'err + DashboardResponse \<Rightarrow> DashboardState" where
  "after_fetchData formatError st resp = run_dashboard st (fetchData formatError resp)"

definition kpiTone :: "string \<Rightarrow> string" where
  "kpiTone risk = (if risk = ''High'' then ''bad'' else if risk = ''Medium'' then ''warn'' else ''good'')"


subsection \<open>What \<open>DashboardPage\<close> renders\<close>

text \<open>Every panel has the same shape: a skeleton of \<open>n\<close> lines while loading, and its
  content after \<open>!loading && data &&\<close>.\<close>

definition panel ::
  "DashboardState \<Rightarrow> nat \<Rightarrow> (DashboardState \<Rightarrow> js_error + element list) \<Rightarrow> js_error + element list" where
  "panel st n content =
     and_then (if \<not> dash_loading st \<and> data st \<noteq> None then content st else Inr [])
       (\<lambda>body. Inr ((if dash_loading st then [LoadingSkeleton n] else []) @ body))"

definition kpi_cards :: "DashboardState \<Rightarrow> js_error + element list" where
  "kpi_cards st =
     and_then (deref (data st)) (\<lambda>d.
     and_then (toFixed (kpi_average_sentiment (kpis d)) 2) (\<lambda>avg.
     and_then (toFixed (kpi_negative_percentage (kpis d)) 1) (\<lambda>neg.
     and_then (toFixed (predicted_sales_drop (kpis d)) 1) (\<lambda>drop.
       Inr [KPICard ''Average Sentiment'' avg (Some ''30d rolling'')
              (kpiTone (kpi_risk_level (kpis d))),
            KPICard ''% Negative'' (neg @ [Lit ''%'']) (Some ''Twitter/Reddit blend'')
              (if greater (kpi_negative_percentage (kpis d)) (Finite 35) then ''bad'' else ''warn''),
            KPICard ''Predicted Sales Drop'' (drop @ [Lit ''%'']) (Some ''Short-term'')
              (kpiTone (kpi_risk_level (kpis d))),
            KPICard ''Risk Level'' [Lit (kpi_risk_level (kpis d))] None
              (kpiTone (kpi_risk_level (kpis d)))]))))"









section \<open>The views at run time\<close>

text \<open>
  The types of the responses are erased when the views run, and nothing checks the
  body of a response before it is stored: \<open>setSentiment(sentimentResp.data)\<close>,
  \<open>setPrediction(predictionResp.data)\<close> and \<open>setData(data)\<close> store what came.  So a
  property of a stored body holds a value of its declared type, holds \<open>null\<close>, or is
  missing and reads as \<open>undefined\<close>.  (A value of another type is left out; the
  entries of the arrays are taken to be as declared.)  What a child component does
  with a property handed to it is not part of this file.
\<close>

datatype 'a field = Present 'a | Null | Missing


text \<open>The receiver of a method call or of a further property read: \<open>null\<close> and
  \<open>undefined\<close> both throw.\<close>

definition receiver :: "'a field \<Rightarrow> js_error + 'a" where
  "receiver f = (case f of Present v \<Rightarrow> Inr v | Null \<Rightarrow> Inl TypeError | Missing \<Rightarrow> Inl TypeError)"

text \<open>An operand of \<open>*\<close> is converted to a number: \<open>null\<close> to zero, \<open>undefined\<close> to \<open>NaN\<close>.\<close>

definition ToNumber :: "number field \<Rightarrow> number" where
  "ToNumber f = (case f of Present x \<Rightarrow> x | Null \<Rightarrow> Finite 0 | Missing \<Rightarrow> NaN)"

text \<open>A JSX child: React renders nothing for \<open>null\<close> and for \<open>undefined\<close>.\<close>

definition child_number :: "number field \<Rightarrow> jsstring" where
  "child_number f = (case f of Present x \<Rightarrow> [NumberToString x] | Null \<Rightarrow> [] | Missing \<Rightarrow> [])"

definition child_string :: "string field \<Rightarrow> jsstring" where
  "child_string f = (case f of Present s \<Rightarrow> [Lit s] | Null \<Rightarrow> [] | Missing \<Rightarrow> [])"



record SentimentBody =
  average_sentiment_field :: "number field"
  total_posts_field :: "number field"
  negative_percentage_field :: "number field"

record PredictionBody =
  predicted_drop_percentage_field :: "number field"
  loss_probability_field :: "number field"
  risk_level_field :: "string field"
  explanation_field :: "string field"

record KpisBody =
  kpi_average_sentiment_field :: "number field"
  kpi_negative_percentage_field :: "number field"
  predicted_sales_drop_field :: "number field"
  kpi_risk_level_field :: "string field"

record DashboardBody =
  kpis_field :: "KpisBody field"
  sentiment_trend_field :: "(string \<times> number) list field"
  sentiment_distribution_field :: "(string \<times> number) list field"
  comment_volume_field :: "(string \<times> number) list field"
  sales_series_field :: "(string \<times> number \<times> number) list field"
  ai_insights_field :: "string list field"
  alerts_field :: "string list field"

text \<open>A body of the declared shape: every property is there.\<close>

definition sentiment_body :: "SentimentAnalysisResponse \<Rightarrow> SentimentBody" where
  "sentiment_body s =
     \<lparr>average_sentiment_field = Present (average_sentiment s),
      total_posts_field = Present (total_posts s),
      negative_percentage_field = Present (negative_percentage s)\<rparr>"

definition prediction_body :: "SalesLossPredictionResponse \<Rightarrow> PredictionBody" where
  "prediction_body p =
     \<lparr>predicted_drop_percentage_field = Present (predicted_drop_percentage p),
      loss_probability_field = Present (loss_probability p),
      risk_level_field = Present (risk_level p),
      explanation_field = Present (explanation p)\<rparr>"

definition dashboard_body :: "DashboardResponse \<Rightarrow> DashboardBody" where
  "dashboard_body d =
     \<lparr>kpis_field =
        Present \<lparr>kpi_average_sentiment_field = Present (kpi_average_sentiment (kpis d)),
                 kpi_negative_percentage_field = Present (kpi_negative_percentage (kpis d)),
                 predicted_sales_drop_field = Present (predicted_sales_drop (kpis d)),
                 kpi_risk_level_field = Present (kpi_risk_level (kpis d))\<rparr>,
      sentiment_trend_field = Present (sentiment_trend d),
      sentiment_distribution_field = Present (sentiment_distribution d),
      comment_volume_field = Present (comment_volume d),
      sales_series_field = Present (sales_series d),
      ai_insights_field = Present (ai_insights d),
      alerts_field = (case alerts d of None \<Rightarrow> Missing | Some as \<Rightarrow> Present as)\<rparr>"

subsection \<open>The Analyze results at run time\<close>

text \<open>The cells of \<open>AnalyzePage\<close> that the results panel reads and \<open>submit\<close> writes, holding
  bodies as received.  (The input panel reads no response.)\<close>

record AnalyzeCells =
  loading_rt :: bool
  sentiment_rt :: "SentimentBody option"
  prediction_rt :: "PredictionBody option"
  error_rt :: string


definition cells_of :: "AnalyzeState \<Rightarrow> AnalyzeCells" where
  "cells_of st =
     \<lparr>loading_rt = loading st,
      sentiment_rt = map_option sentiment_body (sentiment st),
      prediction_rt = map_option prediction_body (prediction st),
      error_rt = error st\<rparr>"

text \<open>\<open>submit\<close> on these cells: the state the handler leaves, the two outcomes given.
  A response carries its body, an object or \<open>null\<close>.\<close>

definition submit_rt ::
  "('err \<Rightarrow> string) \<Rightarrow> AnalyzeCells \<Rightarrow> 'err + SentimentBody option \<Rightarrow>
   'err + PredictionBody option \<Rightarrow> AnalyzeCells" where
  "submit_rt formatError c respA respB =
     (let c = c\<lparr>loading_rt := True\<rparr>;
          c = c\<lparr>error_rt := ''''\<rparr>;
          c = (case respA of
                 Inl err \<Rightarrow> c\<lparr>error_rt := formatError err\<rparr>
               | Inr sentimentResp \<Rightarrow>
                   (let c = c\<lparr>sentiment_rt := sentimentResp\<rparr>
                    in case respB of
                         Inl err \<Rightarrow> c\<lparr>error_rt := formatError err\<rparr>
                       | Inr predictionResp \<Rightarrow> c\<lparr>prediction_rt := predictionResp\<rparr>))
      in c\<lparr>loading_rt := False\<rparr>)"

text \<open>The block after \<open>!loading && sentiment && prediction &&\<close>, reading the stored bodies:
  \<open>toFixed\<close> is called on three properties, one is multiplied first, three are JSX
  children.\<close>

definition results_cards_rt :: "AnalyzeCells \<Rightarrow> js_error + element list" where
  "results_cards_rt c =
     and_then (deref (sentiment_rt c)) (\<lambda>s.
     and_then (deref (prediction_rt c)) (\<lambda>p.
     and_then (receiver (average_sentiment_field s)) (\<lambda>average.
     and_then (toFixed average 2) (\<lambda>avg.
     and_then (receiver (negative_percentage_field s)) (\<lambda>negative.
     and_then (toFixed negative 1) (\<lambda>neg.
     and_then (receiver (predicted_drop_percentage_field p)) (\<lambda>predicted.
     and_then (toFixed predicted 1) (\<lambda>drop.
     and_then (toFixed (multiply (ToNumber (loss_probability_field p)) (Finite 100)) 1) (\<lambda>prob.
       Inr [ResultCard ''Sentiment''
              [avg @ [Lit '' score''],
               child_number (total_posts_field s) @ [Lit ('' posts '' @ middle_dot), Lit '' ''] @
               neg @ [Lit ''% negative'']],
            ResultCard ''Prediction''
              [drop @ [Lit ''% projected drop''],
               [Lit ''Loss probability ''] @ prob @
               [Lit (''% '' @ middle_dot @ '' Risk''), Lit '' ''] @ child_string (risk_level_field p),
               child_string (explanation_field p)],
            Button ''Open Dashboard'' False])))))))))"

definition results_panel_rt :: "AnalyzeCells \<Rightarrow> js_error + element list" where
  "results_panel_rt c =
     and_then
       (if \<not> loading_rt c \<and> sentiment_rt c \<noteq> None \<and> prediction_rt c \<noteq> None
        then results_cards_rt c else Inr [])
       (\<lambda>cards.
          Inr ((if loading_rt c then [LoadingSkeleton 5] else []) @
               cards @
               (if \<not> loading_rt c \<and> sentiment_rt c = None
                then [Text [Lit ''Run an analysis to see sentiment and risk results.'']]
                else [])))"

subsection \<open>The Dashboard at run time\<close>

record DashboardCells =
  data_rt :: "DashboardBody option"
  dash_error_rt :: string
  dash_loading_rt :: bool


definition dashboard_cells_of :: "DashboardState \<Rightarrow> DashboardCells" where
  "dashboard_cells_of st =
     \<lparr>data_rt = map_option dashboard_body (data st),
      dash_error_rt = dash_error st,
      dash_loading_rt = dash_loading st\<rparr>"

definition fetchData_rt ::
  "('err \<Rightarrow> string) \<Rightarrow> DashboardCells \<Rightarrow> 'err + DashboardBody option \<Rightarrow> DashboardCells" where
  "fetchData_rt formatError c resp =
     (let c = c\<lparr>dash_loading_rt := True\<rparr>;
          c = c\<lparr>dash_error_rt := ''''\<rparr>;
          c = (case resp of
                 Inl err \<Rightarrow> c\<lparr>dash_error_rt := formatError err\<rparr>
               | Inr d \<Rightarrow> c\<lparr>data_rt := d\<rparr>)
      in c\<lparr>dash_loading_rt := False\<rparr>)"










section \<open>Dates\<close>

text \<open>
  A \<open>Date\<close> holds a time value: milliseconds since 1970-01-01T00:00:00Z, or \<open>NaN\<close> for an
  invalid date (here \<open>None\<close>).  The functions below are the abstract operations by which
  the language defines the methods of \<open>Date\<close>, under their names there.
\<close>

definition msPerDay :: int where
  "msPerDay = 86400000"

definition Day :: "int \<Rightarrow> int" where
  "Day t = t div msPerDay"

definition TimeWithinDay :: "int \<Rightarrow> int" where
  "TimeWithinDay t = t mod msPerDay"

definition DaysInYear :: "int \<Rightarrow> int" where
  "DaysInYear y =
     (if y mod 4 \<noteq> 0 then 365 else if y mod 100 \<noteq> 0 then 366 else if y mod 400 \<noteq> 0 then 365 else 366)"

definition DayFromYear :: "int \<Rightarrow> int" where
  "DayFromYear y =
     365 * (y - 1970) + (y - 1969) div 4 - (y - 1901) div 100 + (y - 1601) div 400"

text \<open>The year of a day number: the largest \<open>y\<close> with \<open>DayFromYear y \<le> d\<close>.  It is at most one
  away from the estimate by the mean length of a year, 146097 days in 400 years.\<close>

definition YearFromDay :: "int \<Rightarrow> int" where
  "YearFromDay d =
     (let y = 1970 + (d * 400) div 146097
      in if DayFromYear (y + 1) \<le> d then y + 1 else if DayFromYear y \<le> d then y else y - 1)"

definition YearFromTime :: "int \<Rightarrow> int" where
  "YearFromTime t = YearFromDay (Day t)"

definition InLeapYear :: "int \<Rightarrow> int" where
  "InLeapYear t = (if DaysInYear (YearFromTime t) = 366 then 1 else 0)"

definition DayWithinYear :: "int \<Rightarrow> int" where
  "DayWithinYear t = Day t - DayFromYear (YearFromTime t)"

definition MonthFromTime :: "int \<Rightarrow> int" where
  "MonthFromTime t =
     (let d = DayWithinYear t; leap = InLeapYear t
      in if d < 31 then 0
         else if d < 59 + leap then 1
         else if d < 90 + leap then 2
         else if d < 120 + leap then 3
         else if d < 151 + leap then 4
         else if d < 181 + leap then 5
         else if d < 212 + leap then 6
         else if d < 243 + leap then 7
         else if d < 273 + leap then 8
         else if d < 304 + leap then 9
         else if d < 334 + leap then 10
         else 11)"

definition DateFromTime :: "int \<Rightarrow> int" where
  "DateFromTime t =
     (let d = DayWithinYear t; leap = InLeapYear t; m = MonthFromTime t
      in if m = 0 then d + 1
         else if m = 1 then d - 30
         else if m = 2 then d - 58 - leap
         else if m = 3 then d - 89 - leap
         else if m = 4 then d - 119 - leap
         else if m = 5 then d - 150 - leap
         else if m = 6 then d - 180 - leap
         else if m = 7 then d - 211 - leap
         else if m = 8 then d - 242 - leap
         else if m = 9 then d - 272 - leap
         else if m = 10 then d - 303 - leap
         else d - 333 - leap)"

definition HourFromTime :: "int \<Rightarrow> int" where
  "HourFromTime t = (t div 3600000) mod 24"

definition MinFromTime :: "int \<Rightarrow> int" where
  "MinFromTime t = (t div 60000) mod 60"

definition SecFromTime :: "int \<Rightarrow> int" where
  "SecFromTime t = (t div 1000) mod 60"

definition msFromTime :: "int \<Rightarrow> int" where
  "msFromTime t = t mod 1000"

text \<open>
  The host's time zone is its \<open>LocalTZA\<close>: the offset of local time from UTC in
  milliseconds, asked either for a UTC time value (\<open>isUTC\<close> true) or for a local one.
\<close>

type_synonym timezone = "int \<Rightarrow> bool \<Rightarrow> int"

definition LocalTime :: "timezone \<Rightarrow> int \<Rightarrow> int" where
  "LocalTime LocalTZA t = t + LocalTZA t True"

definition UTC :: "timezone \<Rightarrow> int \<Rightarrow> int" where
  "UTC LocalTZA t = t - LocalTZA t False"

text \<open>The day number of the first day of month \<open>mn\<close> (from 0) within its year.\<close>

definition DaysBeforeMonth :: "int \<Rightarrow> int \<Rightarrow> int" where
  "DaysBeforeMonth mn leap =
     (if mn = 0 then 0
      else if mn = 1 then 31
      else if mn = 2 then 59 + leap
      else if mn = 3 then 90 + leap
      else if mn = 4 then 120 + leap
      else if mn = 5 then 151 + leap
      else if mn = 6 then 181 + leap
      else if mn = 7 then 212 + leap
      else if mn = 8 then 243 + leap
      else if mn = 9 then 273 + leap
      else if mn = 10 then 304 + leap
      else 334 + leap)"

text \<open>\<open>MakeDay\<close>: the day number of the first of the month, plus the date less one; the date
  may be zero, negative or past the month's end.\<close>

definition MakeDay :: "int \<Rightarrow> int \<Rightarrow> int \<Rightarrow> int" where
  "MakeDay year month date =
     (let ym = year + month div 12; mn = month mod 12
      in DayFromYear ym + DaysBeforeMonth mn (if DaysInYear ym = 366 then 1 else 0) + date - 1)"

definition MakeDate :: "int \<Rightarrow> int \<Rightarrow> int" where
  "MakeDate day time = day * msPerDay + time"

definition TimeClip :: "int \<Rightarrow> int option" where
  "TimeClip time = (if 8640000000000000 < \<bar>time\<bar> then None else Some time)"

text \<open>\<open>getDate\<close>, \<open>setDate\<close> and \<open>toISOString\<close> of a valid date; the first two work in local
  time, the third one prints UTC.\<close>

definition getDate :: "timezone \<Rightarrow> int \<Rightarrow> int" where
  "getDate LocalTZA t = DateFromTime (LocalTime LocalTZA t)"

definition setDate :: "timezone \<Rightarrow> int \<Rightarrow> int \<Rightarrow> int option" where
  "setDate LocalTZA tv dt =
     (let t = LocalTime LocalTZA tv;
          newDate = MakeDate (MakeDay (YearFromTime t) (MonthFromTime t) dt) (TimeWithinDay t)
      in TimeClip (UTC LocalTZA newDate))"

text \<open>A non-negative integer in at least \<open>w\<close> decimal digits.\<close>

definition pad :: "nat \<Rightarrow> int \<Rightarrow> string" where
  "pad w n = replicate (w - length (digits n)) (CHR ''0'') @ digits n"

definition toISOString :: "int option \<Rightarrow> js_error + string" where
  "toISOString tv =
     (case tv of
        None \<Rightarrow> Inl RangeError
      | Some t \<Rightarrow>
          (let y = YearFromTime t
           in Inr ((if 0 \<le> y \<and> y \<le> 9999 then pad 4 y
                    else (if y < 0 then ''-'' else ''+'') @ pad 6 \<bar>y\<bar>) @
                   ''-'' @ pad 2 (MonthFromTime t + 1) @
                   ''-'' @ pad 2 (DateFromTime t) @
                   ''T'' @ pad 2 (HourFromTime t) @
                   '':'' @ pad 2 (MinFromTime t) @
                   '':'' @ pad 2 (SecFromTime t) @
                   ''.'' @ pad 3 (msFromTime t) @ ''Z'')))"

text \<open>
  \<open>defaultDates\<close>.  Each \<open>new Date()\<close> reads the clock: the two readings are arguments,
  \<open>now1\<close> for \<open>end\<close> and \<open>now2\<close> for \<open>start\<close>.  \<open>slice(0, 10)\<close> keeps the first ten
  characters.
\<close>

definition defaultDates :: "timezone \<Rightarrow> int \<Rightarrow> int \<Rightarrow> js_error + DateRange" where
  "defaultDates LocalTZA now1 now2 =
     (let end_date = Some now1;
          start_date = setDate LocalTZA now2 (getDate LocalTZA now1 - 7)
      in and_then (toISOString start_date) (\<lambda>start_iso.
         and_then (toISOString end_date) (\<lambda>end_iso.
           Inr \<lparr>range_start = take 10 start_iso, range_end = take 10 end_iso\<rparr>)))"

text \<open>The first render of \<open>AnalyzePage\<close>: \<open>useState(defaultDates)\<close> calls \<open>defaultDates\<close> for
  the initial range.\<close>

definition AnalyzePage_first_render :: "timezone \<Rightarrow> int \<Rightarrow> int \<Rightarrow> js_error + AnalyzeState" where
  "AnalyzePage_first_render LocalTZA now1 now2 =
     and_then (defaultDates LocalTZA now1 now2) (\<lambda>r. Inr (AnalyzePage_init r))"

text \<open>
  Three hosts: one on UTC, one in Japan (nine hours ahead, no daylight saving), one
  in Germany under the rule of 2024 (one hour ahead, two hours from
  2024-03-31T01:00Z until 2024-10-27T01:00Z; a local time that a change of offset
  skips or repeats is read with the offset before the change).
\<close>

definition UTC_zone :: timezone where
  "UTC_zone t isUTC = 0"

definition Asia_Tokyo :: timezone where
  "Asia_Tokyo t isUTC = 32400000"

definition Europe_Berlin_2024 :: timezone where
  "Europe_Berlin_2024 t isUTC =
     (if isUTC
      then (if 1711846800000 \<le> t \<and> t < 1729990800000 then 7200000 else 3600000)
      else (if 1711846800000 + 7200000 \<le> t \<and> t < 1729990800000 + 7200000 then 7200000
            else 3600000))"

subsection \<open>Sample values\<close>

text \<open>Concrete responses and states at which the results below are instantiated.\<close>

definition sample_range :: DateRange where
  "sample_range = \<lparr>range_start = ''2024-01-01'', range_end = ''2024-01-08''\<rparr>"

definition sample_sentiment :: SentimentAnalysisResponse where
  "sample_sentiment =
     \<lparr>average_sentiment = Finite (3 / 4), total_posts = Finite 120, negative_percentage = Finite 10\<rparr>"

definition later_sentiment :: SentimentAnalysisResponse where
  "later_sentiment =
     \<lparr>average_sentiment = Finite (- 1 / 2), total_posts = Finite 80, negative_percentage = Finite 60\<rparr>"

definition sample_prediction :: SalesLossPredictionResponse where
  "sample_prediction =
     \<lparr>predicted_drop_percentage = Finite (5 / 2), loss_probability = Finite (1 / 8),
      risk_level = ''Low'', explanation = ''Sentiment is stable.''\<rparr>"

text \<open>Responses carrying the doubles that the decimal numbers 0.42, 12.345 and 0.5 denote.\<close>

definition decimal_sentiment :: SentimentAnalysisResponse where
  "decimal_sentiment =
     \<lparr>average_sentiment = fl_round (42 / 100), total_posts = Finite 120,
      negative_percentage = Finite 10\<rparr>"

definition decimal_prediction :: SalesLossPredictionResponse where
  "decimal_prediction =
     \<lparr>predicted_drop_percentage = fl_round (12345 / 1000), loss_probability = fl_round (5 / 10),
      risk_level = ''Medium'', explanation = ''Negative share is rising.''\<rparr>"

definition sample_snapshot :: DashboardResponse where
  "sample_snapshot =
     \<lparr>kpis = \<lparr>kpi_average_sentiment = Finite (- 1 / 4), kpi_negative_percentage = Finite 36,
              predicted_sales_drop = Finite (25 / 2), kpi_risk_level = ''High''\<rparr>,
      sentiment_trend = [(''2024-01-01'', Finite (- 1 / 4))],
      sentiment_distribution = [(''positive'', Finite 10), (''neutral'', Finite 20),
                                (''negative'', Finite 30)],
      comment_volume = [(''2024-01-01'', Finite 60)],
      sales_series = [(''2024-01-01'', Finite 1000, Finite 900)],
      ai_insights = [''Negative share is rising.''],
      alerts = Some [''High loss probability'']\<rparr>"



section \<open>Basic rewriting\<close>

lemma run_Nil [simp]: "run st [] = st"
  by (simp add: run_def)

lemma run_Cons [simp]: "run st (e # evs) = run (apply_event st e) evs"
  by (simp add: run_def)

lemma run_append: "run st (xs @ ys) = run (run st xs) ys"
  by (simp add: run_def)

lemma run_dashboard_Nil [simp]: "run_dashboard st [] = st"
  by (simp add: run_dashboard_def)

lemma run_dashboard_Cons [simp]:
  "run_dashboard st (e # evs) = run_dashboard (apply_dashboard_event st e) evs"
  by (simp add: run_dashboard_def)

lemma toFixed_small [simp]: "f \<le> 100 \<Longrightarrow> toFixed x f = Inr (toFixed_string x f)"
  by (simp add: toFixed_def)

lemma and_then_Inr [simp]: "and_then (Inr v) f = f v"
  by (simp add: and_then_def)

lemma and_then_Inl [simp]: "and_then (Inl e) f = Inl e"
  by (simp add: and_then_def)

lemma deref_Some [simp]: "deref (Some v) = Inr v"
  by (simp add: deref_def)

lemma deref_None [simp]: "deref None = Inl TypeError"
  by (simp add: deref_def)

section \<open>The rounding to a double\<close>

text \<open>
  \<open>floor_log2\<close> is the exponent of its argument, and \<open>fl_round\<close> is off by at most half a
  unit in the last place of that exponent.
\<close>

lemma bit_length_bracket:
  "0 < n \<Longrightarrow> 1 \<le> bit_length n \<and> 2 ^ nat (bit_length n - 1) \<le> n \<and> n < 2 ^ nat (bit_length n)"
proof (induction n rule: bit_length.induct)
  case (1 n)
  show ?case
  proof (cases "n = 1")
    case True
    then show ?thesis by (simp add: bit_length.simps)
  next
    case False
    with "1.prems" have half: "0 < n div 2" by simp
    define k where "k = bit_length (n div 2)"
    from "1.IH" "1.prems" half
    have k: "1 \<le> k" "2 ^ nat (k - 1) \<le> n div 2" "n div 2 < 2 ^ nat k"
      by (simp_all add: k_def)
    have len: "bit_length n = k + 1"
      using "1.prems" by (simp add: bit_length.simps [of n] k_def)
    have pow: "(2::int) ^ nat k = 2 * 2 ^ nat (k - 1)" "(2::int) ^ nat (k + 1) = 2 * 2 ^ nat k"
      using k(1) by (simp_all add: nat_diff_distrib nat_add_distrib flip: power_Suc)
    have "2 * (n div 2) \<le> n" "n \<le> 2 * (n div 2) + 1"
      by simp_all
    with k pow show ?thesis
      by (simp add: len)
  qed
qed

lemma pow2_nonpos: "k \<le> 0 \<Longrightarrow> pow2 k = 1 / 2 ^ nat (- k)"
  by (cases "k = 0") (simp_all add: pow2_def)

lemma floor_log2_bracket:
  assumes "0 < r"
  shows "pow2 (floor_log2 r) \<le> r \<and> r < pow2 (floor_log2 r + 1)"
proof (cases "1 \<le> r")
  case True
  define n where "n = \<lfloor>r\<rfloor>"
  define k where "k = bit_length n"
  have n: "0 < n" "of_int n \<le> r" "r < of_int n + 1"
    using True floor_correct [of r] by (simp_all add: n_def)
  from bit_length_bracket [OF n(1)]
  have k: "1 \<le> k" "2 ^ nat (k - 1) \<le> n" "n + 1 \<le> 2 ^ nat k"
    by (simp_all add: k_def)
  have e: "floor_log2 r = k - 1"
    using True by (simp add: floor_log2_def n_def k_def)
  have "pow2 (k - 1) = of_int (2 ^ nat (k - 1))"
    using k(1) by (simp add: pow2_def)
  also have "\<dots> \<le> of_int n"
    using k(2) by (simp only: of_int_le_iff)
  finally have lower: "pow2 (k - 1) \<le> r"
    using n(2) by simp
  have "r < of_int (n + 1)"
    using n(3) by simp
  also have "\<dots> \<le> of_int (2 ^ nat k)"
    using k(3) by (simp only: of_int_le_iff)
  also have "\<dots> = pow2 k"
    using k(1) by (simp add: pow2_def)
  finally have upper: "r < pow2 k" .
  show ?thesis
    using lower upper by (simp add: e)
next
  case False
  define m where "m = \<lceil>1 / r\<rceil> - 1"
  define k where "k = bit_length m"
  have inv: "1 < 1 / r"
    using assms False by simp
  then have "2 \<le> \<lceil>1 / r\<rceil>"
    by (simp add: le_ceiling_iff)
  then have m: "0 < m"
    by (simp add: m_def)
  have below: "of_int m < 1 / r"
    using ceiling_correct [of "1 / r"] by (simp add: m_def)
  have above: "1 / r \<le> of_int (m + 1)"
    using ceiling_correct [of "1 / r"] by (simp add: m_def)
  from bit_length_bracket [OF m]
  have k: "1 \<le> k" "2 ^ nat (k - 1) \<le> m" "m + 1 \<le> 2 ^ nat k"
    by (simp_all add: k_def)
  have e: "floor_log2 r = - k"
    using False by (simp add: floor_log2_def m_def k_def)
  have "1 / r \<le> of_int (2 ^ nat k)"
    using above k(3) by (meson of_int_le_iff order_trans)
  then have "1 / r \<le> 2 ^ nat k"
    by simp
  then have "1 / 2 ^ nat k \<le> r"
    using assms by (simp add: field_simps)
  then have lower: "pow2 (- k) \<le> r"
    using k(1) by (simp add: pow2_nonpos)
  have "(2::rat) ^ nat (k - 1) = of_int (2 ^ nat (k - 1))"
    by simp
  also have "\<dots> \<le> of_int m"
    using k(2) by (simp only: of_int_le_iff)
  also have "\<dots> < 1 / r"
    by (rule below)
  finally have "2 ^ nat (k - 1) < 1 / r" .
  then have "r < 1 / 2 ^ nat (k - 1)"
    using assms by (simp add: field_simps)
  then have upper: "r < pow2 (- k + 1)"
    using k(1) by (simp add: pow2_nonpos)
  show ?thesis
    using lower upper by (simp add: e)
qed

lemma pow2_pos: "0 < pow2 k"
  by (simp add: pow2_def)

lemma round_half_even_near: "\<bar>of_int (round_half_even q) - q\<bar> \<le> 1 / 2"
proof -
  define n where "n = \<lfloor>q\<rfloor>"
  define d where "d = q - of_int n"
  have d: "0 \<le> d" "d < 1"
    using floor_correct [of q] by (simp_all add: d_def n_def)
  have q: "q = of_int n + d"
    by (simp add: d_def)
  have r: "round_half_even q =
      (if d < 1 / 2 then n else if 1 / 2 < d then n + 1 else if even n then n else n + 1)"
    by (simp add: round_half_even_def Let_def n_def d_def)
  have down: "of_int n - q = - d" and up: "of_int (n + 1) - q = 1 - d"
    by (simp_all add: d_def)
  consider "d < 1 / 2" | "1 / 2 < d" | "d = 1 / 2"
    by linarith
  then show ?thesis
  proof cases
    case 1
    then have "round_half_even q = n" by (simp add: r)
    then have "of_int (round_half_even q) - q = - d" using down by simp
    with d 1 show ?thesis by simp
  next
    case 2
    then have "round_half_even q = n + 1" by (simp add: r)
    then have "of_int (round_half_even q) - q = 1 - d" using up by simp
    with d 2 show ?thesis by simp
  next
    case 3
    then have "round_half_even q = n \<or> round_half_even q = n + 1" by (simp add: r)
    then show ?thesis
    proof
      assume "round_half_even q = n"
      then have "of_int (round_half_even q) - q = - d" using down by simp
      with 3 show ?thesis by simp
    next
      assume "round_half_even q = n + 1"
      then have "of_int (round_half_even q) - q = 1 - d" using up by simp
      with 3 show ?thesis by simp
    qed
  qed
qed

lemma fl_round_error:
  assumes "fl_round r = Finite v"
  shows "\<bar>v - r\<bar> \<le> pow2 (max (floor_log2 \<bar>r\<bar>) (- 1022) - 52) / 2"
proof (cases "r = 0")
  case True
  with assms have "v = 0"
    by (simp add: fl_round_def)
  with True show ?thesis
    using pow2_pos [of "max (floor_log2 \<bar>r\<bar>) (- 1022) - 52"] by simp
next
  case False
  define ulp where "ulp = pow2 (max (floor_log2 \<bar>r\<bar>) (- 1022) - 52)"
  define m where "m = round_half_even (\<bar>r\<bar> / ulp)"
  have ulp: "0 < ulp"
    by (simp add: ulp_def pow2_pos)
  have "fl_round r =
      (if pow2 1024 \<le> of_int m * ulp then (if r < 0 then NegInf else PosInf)
       else Finite (if r < 0 then - (of_int m * ulp) else of_int m * ulp))"
    using False by (simp add: fl_round_def Let_def ulp_def m_def)
  with assms have v: "v = (if r < 0 then - (of_int m * ulp) else of_int m * ulp)"
    by (simp split: if_splits)
  have "of_int m * ulp - \<bar>r\<bar> = (of_int m - \<bar>r\<bar> / ulp) * ulp"
    using ulp by (simp add: left_diff_distrib)
  then have "\<bar>of_int m * ulp - \<bar>r\<bar>\<bar> = \<bar>of_int m - \<bar>r\<bar> / ulp\<bar> * ulp"
    using ulp by (simp add: abs_mult)
  also have "\<dots> \<le> 1 / 2 * ulp"
    unfolding m_def using ulp by (intro mult_right_mono round_half_even_near) simp
  finally have near: "\<bar>of_int m * ulp - \<bar>r\<bar>\<bar> \<le> ulp / 2"
    by simp
  have "\<bar>v - r\<bar> = \<bar>of_int m * ulp - \<bar>r\<bar>\<bar>"
  proof (cases "r < 0")
    case True
    then have "v - r = - (of_int m * ulp - \<bar>r\<bar>)"
      by (simp add: v)
    then show ?thesis
      by (simp only: abs_minus_cancel)
  next
    case False
    then have "v - r = of_int m * ulp - \<bar>r\<bar>"
      by (simp add: v)
    then show ?thesis
      by simp
  qed
  with near show ?thesis
    by (simp add: ulp_def)
qed

section \<open>Evaluations at concrete numbers\<close>

text \<open>The left-hand sides are in the form the simplifier gives to the arguments: fractions
  in lowest terms (\<open>21 / 50\<close> is 0.42, \<open>2469 / 200\<close> is 12.345), \<open>Suc 0\<close> for one digit.\<close>

named_theorems eval \<open>evaluations of the number functions at concrete arguments\<close>

lemma floor_rat_numeral [simp]:
  "\<lfloor>numeral a / numeral b :: rat\<rfloor> = numeral a div numeral b"
  using floor_divide_of_int_eq [of "numeral a" "numeral b", where ?'a = rat] by simp

lemma ceiling_rat_numeral [simp]:
  "\<lceil>numeral a / numeral b :: rat\<rceil> = - (- numeral a div numeral b)"
  using ceiling_divide_eq_div [of "numeral a" "numeral b", where ?'a = rat] by simp

lemma fl_round_042 [eval]:
  "fl_round (21 / 50) = Finite (7566047373982433 / 18014398509481984)"
  by (simp add: fl_round_def floor_log2_def pow2_def round_half_even_def bit_length.simps Let_def)

lemma fl_round_12345 [eval]:
  "fl_round (2469 / 200) = Finite (6949617174986097 / 562949953421312)"
  by (simp add: fl_round_def floor_log2_def pow2_def round_half_even_def bit_length.simps Let_def)

lemma fl_round_half [eval]: "fl_round (1 / 2) = Finite (1 / 2)"
  by (simp add: fl_round_def floor_log2_def pow2_def round_half_even_def bit_length.simps Let_def)

lemma fl_round_50 [eval]: "fl_round 50 = Finite 50"
  by (simp add: fl_round_def floor_log2_def pow2_def round_half_even_def bit_length.simps Let_def)

lemma fl_round_25_2 [eval]: "fl_round (25 / 2) = Finite (25 / 2)"
  by (simp add: fl_round_def floor_log2_def pow2_def round_half_even_def bit_length.simps Let_def)

lemma toFixed_string_042 [eval]:
  "toFixed_string (Finite (7566047373982433 / 18014398509481984)) 2 = [Lit ''0.42'']"
  by (simp add: toFixed_string_def digits.simps Let_def)

lemma toFixed_string_12345 [eval]:
  "toFixed_string (Finite (6949617174986097 / 562949953421312)) (Suc 0) = [Lit ''12.3'']"
  by (simp add: toFixed_string_def digits.simps Let_def)

lemma toFixed_string_50 [eval]: "toFixed_string (Finite 50) (Suc 0) = [Lit ''50.0'']"
  by (simp add: toFixed_string_def digits.simps Let_def)

lemma toFixed_string_36 [eval]: "toFixed_string (Finite 36) (Suc 0) = [Lit ''36.0'']"
  by (simp add: toFixed_string_def digits.simps Let_def)

lemma toFixed_string_35 [eval]: "toFixed_string (Finite 35) (Suc 0) = [Lit ''35.0'']"
  by (simp add: toFixed_string_def digits.simps Let_def)

lemma toFixed_string_60 [eval]: "toFixed_string (Finite 60) (Suc 0) = [Lit ''60.0'']"
  by (simp add: toFixed_string_def digits.simps Let_def)

lemma toFixed_string_10 [eval]: "toFixed_string (Finite 10) (Suc 0) = [Lit ''10.0'']"
  by (simp add: toFixed_string_def digits.simps Let_def)

lemma toFixed_string_25_2 [eval]: "toFixed_string (Finite (25 / 2)) (Suc 0) = [Lit ''12.5'']"
  by (simp add: toFixed_string_def digits.simps Let_def)

lemma toFixed_string_5_2 [eval]: "toFixed_string (Finite (5 / 2)) (Suc 0) = [Lit ''2.5'']"
  by (simp add: toFixed_string_def digits.simps Let_def)

lemma toFixed_string_minus_half [eval]: "toFixed_string (Finite (- (1 / 2))) 2 = [Lit ''-0.50'']"
  by (simp add: toFixed_string_def digits.simps Let_def)

lemma toFixed_string_minus_quarter [eval]: "toFixed_string (Finite (- (1 / 4))) 2 = [Lit ''-0.25'']"
  by (simp add: toFixed_string_def digits.simps Let_def)

section \<open>Properties of the Analyze submission\<close>

lemma apply_event_loading: "\<not> is_SetLoading e \<Longrightarrow> loading (apply_event st e) = loading st"
  by (cases e) simp_all

lemma run_loading_unchanged:
  "list_all (\<lambda>e. \<not> is_SetLoading e) evs \<Longrightarrow> loading (run st evs) = loading st"
  by (induction evs arbitrary: st) (simp_all add: apply_event_loading)

text \<open>
  C2.  When request A fails, the handler's whole activity is: set loading, clear the
  error, issue request A, store the formatted error, reset loading.  So request B is
  not among the issued requests, the stored sentiment and prediction are the ones from
  before, and the error cell holds the formatted message.
\<close>

theorem submit_request_A_fails:
  "submit formatError st (Inl err) respB =
     [SetLoading True, SetError '''', Post ''/analyze-sentiment'' (request_body st),
      SetError (formatError err), SetLoading False]
   \<and> Post ''/predict-sales-loss'' (request_body st) \<notin> set (submit formatError st (Inl err) respB)
   \<and> sentiment (after_submit formatError st (Inl err) respB) = sentiment st
   \<and> prediction (after_submit formatError st (Inl err) respB) = prediction st
   \<and> error (after_submit formatError st (Inl err) respB) = formatError err
   \<and> loading (after_submit formatError st (Inl err) respB) = False"
  by (simp add: submit_def after_submit_def)

lemma submit_shape:
  "\<exists>mid. submit formatError st respA respB = SetLoading True # mid @ [SetLoading False]
         \<and> list_all (\<lambda>e. \<not> is_SetLoading e) mid"
  by (cases respA; cases respB) (simp_all add: submit_def)

text \<open>
  C4.  In every outcome of the two requests the handler's first action is
  \<open>setLoading(true)\<close> and its last one is \<open>setLoading(false)\<close>, with no other change of
  the flag in between: the flag is up after every non-empty proper prefix of the
  handler's actions (so while either request is pending) and down at the end.  The
  handler validates nothing, so this holds for every form state.
\<close>

theorem submit_loading_bracket:
  "hd (submit formatError st respA respB) = SetLoading True
   \<and> last (submit formatError st respA respB) = SetLoading False
   \<and> list_all (\<lambda>e. \<not> is_SetLoading e) (butlast (tl (submit formatError st respA respB)))
   \<and> (\<forall>n. 0 < n \<and> n < length (submit formatError st respA respB) \<longrightarrow>
          loading (run st (take n (submit formatError st respA respB))))
   \<and> loading (after_submit formatError st respA respB) = False"
proof -
  obtain mid where shape: "submit formatError st respA respB = SetLoading True # mid @ [SetLoading False]"
    and mid: "list_all (\<lambda>e. \<not> is_SetLoading e) mid"
    using submit_shape by blast
  have during: "loading (run st (take n (SetLoading True # mid @ [SetLoading False])))"
    if "0 < n" "n < length (SetLoading True # mid @ [SetLoading False])" for n
  proof -
    from that obtain k where n: "n = Suc k" and k: "k \<le> length mid"
      by (cases n) auto
    have "list_all (\<lambda>e. \<not> is_SetLoading e) (take k mid)"
      using mid by (auto simp: list_all_iff dest: in_set_takeD)
    then have "loading (run (st\<lparr>loading := True\<rparr>) (take k mid))"
      by (simp add: run_loading_unchanged)
    then show ?thesis
      using n k by simp
  qed
  have final: "loading (run st (SetLoading True # mid @ [SetLoading False])) = False"
    by (simp add: run_append)
  show ?thesis
    unfolding after_submit_def shape using mid during final by simp
qed

theorem submit_loading_bracket_witness:
  "(0::nat) < 3
   \<and> 3 < length (submit (\<lambda>u::unit. ''Request failed'')
        (AnalyzePage_init \<lparr>range_start = ''2024-01-01'', range_end = ''2024-01-08''\<rparr>)
        (Inl ()) (Inl ()))
   \<and> loading (run (AnalyzePage_init \<lparr>range_start = ''2024-01-01'', range_end = ''2024-01-08''\<rparr>)
     (take 3 (submit (\<lambda>u::unit. ''Request failed'')
        (AnalyzePage_init \<lparr>range_start = ''2024-01-01'', range_end = ''2024-01-08''\<rparr>)
        (Inl ()) (Inl ()))))"
  using submit_loading_bracket [of "\<lambda>u::unit. ''Request failed''"
      "AnalyzePage_init \<lparr>range_start = ''2024-01-01'', range_end = ''2024-01-08''\<rparr>"
      "Inl ()" "Inl ()"]
  by (simp add: submit_def)

lemma results_cards_Some:
  "sentiment st = Some s \<Longrightarrow> prediction st = Some p \<Longrightarrow>
   results_cards st =
     Inr [ResultCard ''Sentiment''
            [toFixed_string (average_sentiment s) 2 @ [Lit '' score''],
             [NumberToString (total_posts s), Lit ('' posts '' @ middle_dot), Lit '' ''] @
             toFixed_string (negative_percentage s) 1 @ [Lit ''% negative'']],
          ResultCard ''Prediction''
            [toFixed_string (predicted_drop_percentage p) 1 @ [Lit ''% projected drop''],
             [Lit ''Loss probability ''] @
             toFixed_string (multiply (loss_probability p) (Finite 100)) 1 @
             [Lit (''% '' @ middle_dot @ '' Risk''), Lit '' '', Lit (risk_level p)],
             [Lit (explanation p)]],
          Button ''Open Dashboard'' False]"
  by (simp add: results_cards_def)

lemma results_panel_loading:
  "loading st \<Longrightarrow> results_panel st = Inr [LoadingSkeleton 5]"
  by (simp add: results_panel_def)

lemma results_panel_no_sentiment:
  "\<not> loading st \<Longrightarrow> sentiment st = None \<Longrightarrow>
   results_panel st = Inr [Text [Lit ''Run an analysis to see sentiment and risk results.'']]"
  by (simp add: results_panel_def)

lemma results_panel_no_prediction:
  "\<not> loading st \<Longrightarrow> sentiment st = Some s \<Longrightarrow> prediction st = None \<Longrightarrow>
   results_panel st = Inr []"
  by (simp add: results_panel_def)

lemma results_panel_both:
  "\<not> loading st \<Longrightarrow> sentiment st = Some s \<Longrightarrow> prediction st = Some p \<Longrightarrow>
   results_panel st = results_cards st"
  by (simp add: results_panel_def results_cards_Some)

text \<open>
  C3 (as amended).  The two requests are issued one after the other.  Request B is
  issued only on the path where request A has resolved with a response, and on that
  path the response is stored in the sentiment cell first: right before request B is
  issued the sentiment cell holds the new response and the prediction cell is
  untouched.  The sentiment cell is a cell of its own, but the results panel shows
  its content only together with a stored prediction: the result cards are rendered
  exactly when loading is false and both cells are non-null (while request B is
  pending the panel shows the loading skeleton).
\<close>

theorem submit_sequential:
  "submit formatError st (Inl err) respB =
     [SetLoading True, SetError '''', Post ''/analyze-sentiment'' (request_body st),
      SetError (formatError err), SetLoading False]
   \<and> submit formatError st (Inr s) respB =
     [SetLoading True, SetError '''', Post ''/analyze-sentiment'' (request_body st),
      SetSentiment s, Post ''/predict-sales-loss'' (request_body st),
      (case respB of Inl err \<Rightarrow> SetError (formatError err) | Inr p \<Rightarrow> SetPrediction p),
      SetLoading False]
   \<and> sentiment (run st (take 4 (submit formatError st (Inr s) respB))) = Some s
   \<and> prediction (run st (take 4 (submit formatError st (Inr s) respB))) = prediction st
   \<and> results_panel (run st (take 4 (submit formatError st (Inr s) respB))) = Inr [LoadingSkeleton 5]
   \<and> (\<forall>st'. (\<exists>cards. results_panel st' = Inr cards \<and>
          (list_ex is_ResultCard cards =
           (\<not> loading st' \<and> sentiment st' \<noteq> None \<and> prediction st' \<noteq> None))))"
proof -
  have panel: "\<exists>cards. results_panel st' = Inr cards \<and>
          (list_ex is_ResultCard cards =
           (\<not> loading st' \<and> sentiment st' \<noteq> None \<and> prediction st' \<noteq> None))" for st'
  proof (cases "loading st'")
    case True
    then show ?thesis by (simp add: results_panel_loading)
  next
    case False
    show ?thesis
    proof (cases "sentiment st'")
      case None
      with False show ?thesis by (simp add: results_panel_no_sentiment)
    next
      case (Some s')
      show ?thesis
      proof (cases "prediction st'")
        case None
        with False Some show ?thesis by (simp add: results_panel_no_prediction)
      next
        case (Some p')
        with False \<open>sentiment st' = Some s'\<close> show ?thesis
          by (simp add: results_panel_both results_cards_Some)
      qed
    qed
  qed
  show ?thesis
    using panel by (cases respB) (simp_all add: submit_def results_panel_loading)
qed

text \<open>
  C3, counterexample.  The claim as stated fails where the first submission gets a
  sentiment response and then a failure of request B: the sentiment is stored,
  loading is over, and the results panel renders nothing, so the stored sentiment
  is not displayed independently of the prediction result.
\<close>

theorem sentiment_hidden_without_prediction:
  "sentiment (after_submit (\<lambda>u::unit. ''Request failed'')
       (AnalyzePage_init \<lparr>range_start = ''2024-01-01'', range_end = ''2024-01-08''\<rparr>)
       (Inr \<lparr>average_sentiment = Finite (1 / 4), total_posts = Finite 120,
             negative_percentage = Finite 30\<rparr>) (Inl ()))
     = Some \<lparr>average_sentiment = Finite (1 / 4), total_posts = Finite 120,
             negative_percentage = Finite 30\<rparr>
   \<and> \<not> loading (after_submit (\<lambda>u::unit. ''Request failed'')
       (AnalyzePage_init \<lparr>range_start = ''2024-01-01'', range_end = ''2024-01-08''\<rparr>)
       (Inr \<lparr>average_sentiment = Finite (1 / 4), total_posts = Finite 120,
             negative_percentage = Finite 30\<rparr>) (Inl ()))
   \<and> results_panel (after_submit (\<lambda>u::unit. ''Request failed'')
       (AnalyzePage_init \<lparr>range_start = ''2024-01-01'', range_end = ''2024-01-08''\<rparr>)
       (Inr \<lparr>average_sentiment = Finite (1 / 4), total_posts = Finite 120,
             negative_percentage = Finite 30\<rparr>) (Inl ())) = Inr []"
  by (simp add: after_submit_def submit_def AnalyzePage_init_def results_panel_def)

section \<open>Properties of the Dashboard view\<close>

lemma kpi_cards_Some:
  "data st = Some d \<Longrightarrow>
   kpi_cards st =
     Inr [KPICard ''Average Sentiment'' (toFixed_string (kpi_average_sentiment (kpis d)) 2)
            (Some ''30d rolling'') (kpiTone (kpi_risk_level (kpis d))),
          KPICard ''% Negative'' (toFixed_string (kpi_negative_percentage (kpis d)) 1 @ [Lit ''%''])
            (Some ''Twitter/Reddit blend'')
            (if greater (kpi_negative_percentage (kpis d)) (Finite 35) then ''bad'' else ''warn''),
          KPICard ''Predicted Sales Drop'' (toFixed_string (predicted_sales_drop (kpis d)) 1 @ [Lit ''%''])
            (Some ''Short-term'') (kpiTone (kpi_risk_level (kpis d))),
          KPICard ''Risk Level'' [Lit (kpi_risk_level (kpis d))] None
            (kpiTone (kpi_risk_level (kpis d)))]"
  by (simp add: kpi_cards_def)

lemma panel_loading: "dash_loading st \<Longrightarrow> panel st n content = Inr [LoadingSkeleton n]"
  by (simp add: panel_def)

lemma panel_no_data: "\<not> dash_loading st \<Longrightarrow> data st = None \<Longrightarrow> panel st n content = Inr []"
  by (simp add: panel_def)

lemma panel_data:
  "\<not> dash_loading st \<Longrightarrow> data st = Some d \<Longrightarrow> content st = Inr body \<Longrightarrow>
   panel st n content = Inr body"
  by (simp add: panel_def)



text \<open>
  C6.  \<open>kpiTone\<close> sends \<open>"High"\<close> to \<open>"bad"\<close>, \<open>"Medium"\<close> to \<open>"warn"\<close> and every other
  string to \<open>"good"\<close>.  When the snapshot's risk level is \<open>"High"\<close> and the KPI row is
  rendered (loading over, data present), the Average Sentiment card and the
  Predicted Sales Drop card both carry the tone \<open>"bad"\<close> (as does the Risk Level card).
\<close>

theorem kpiTone_mapping:
  "kpiTone ''High'' = ''bad''
   \<and> kpiTone ''Medium'' = ''warn''
   \<and> (risk \<noteq> ''High'' \<and> risk \<noteq> ''Medium'' \<longrightarrow> kpiTone risk = ''good'')
   \<and> (\<not> dash_loading st \<and> data st = Some d \<and> kpi_risk_level (kpis d) = ''High'' \<longrightarrow>
        panel st 4 kpi_cards =
          Inr [KPICard ''Average Sentiment'' (toFixed_string (kpi_average_sentiment (kpis d)) 2)
                 (Some ''30d rolling'') ''bad'',
               KPICard ''% Negative'' (toFixed_string (kpi_negative_percentage (kpis d)) 1 @ [Lit ''%''])
                 (Some ''Twitter/Reddit blend'')
                 (if greater (kpi_negative_percentage (kpis d)) (Finite 35) then ''bad'' else ''warn''),
               KPICard ''Predicted Sales Drop'' (toFixed_string (predicted_sales_drop (kpis d)) 1 @ [Lit ''%''])
                 (Some ''Short-term'') ''bad'',
               KPICard ''Risk Level'' [Lit ''High''] None ''bad''])"
  by (simp add: kpiTone_def panel_data [OF _ _ kpi_cards_Some])

theorem kpiTone_mapping_witness:
  "''Low'' \<noteq> ''High'' \<and> ''Low'' \<noteq> ''Medium'' \<and> kpiTone ''Low'' = ''good''
   \<and> \<not> dash_loading \<lparr>data = Some sample_snapshot, dash_error = '''', dash_loading = False\<rparr>
   \<and> kpi_risk_level (kpis sample_snapshot) = ''High''
   \<and> panel \<lparr>data = Some sample_snapshot, dash_error = '''', dash_loading = False\<rparr> 4 kpi_cards =
        Inr [KPICard ''Average Sentiment'' [Lit ''-0.25''] (Some ''30d rolling'') ''bad'',
             KPICard ''% Negative'' [Lit ''36.0'', Lit ''%''] (Some ''Twitter/Reddit blend'') ''bad'',
             KPICard ''Predicted Sales Drop'' [Lit ''12.5'', Lit ''%''] (Some ''Short-term'') ''bad'',
             KPICard ''Risk Level'' [Lit ''High''] None ''bad'']"
  using kpiTone_mapping [of "''Low''"
      "\<lparr>data = Some sample_snapshot, dash_error = '''', dash_loading = False\<rparr>" sample_snapshot]
  by (simp add: sample_snapshot_def eval)

text \<open>
  C7.  Whenever the KPI row is rendered, the tone of the \<open>% Negative\<close> card is \<open>"bad"\<close>
  if \<open>negative_percentage > 35\<close> and \<open>"warn"\<close> otherwise; the risk level does not
  enter.  At 36 the card reads \<open>36.0%\<close> with tone \<open>"bad"\<close>, at 35 it reads \<open>35.0%\<close> with
  tone \<open>"warn"\<close>, whatever the risk level and the other fields are.
\<close>

theorem negative_percentage_tone:
  "(\<not> dash_loading st \<and> data st = Some d \<longrightarrow>
        panel st 4 kpi_cards =
          Inr [KPICard ''Average Sentiment'' (toFixed_string (kpi_average_sentiment (kpis d)) 2)
                 (Some ''30d rolling'') (kpiTone (kpi_risk_level (kpis d))),
               KPICard ''% Negative'' (toFixed_string (kpi_negative_percentage (kpis d)) 1 @ [Lit ''%''])
                 (Some ''Twitter/Reddit blend'')
                 (if greater (kpi_negative_percentage (kpis d)) (Finite 35) then ''bad'' else ''warn''),
               KPICard ''Predicted Sales Drop'' (toFixed_string (predicted_sales_drop (kpis d)) 1 @ [Lit ''%''])
                 (Some ''Short-term'') (kpiTone (kpi_risk_level (kpis d))),
               KPICard ''Risk Level'' [Lit (kpi_risk_level (kpis d))] None
                 (kpiTone (kpi_risk_level (kpis d)))])
   \<and> (\<not> dash_loading st \<and> data st = Some d \<and> kpi_negative_percentage (kpis d) = Finite 36 \<longrightarrow>
        panel st 4 kpi_cards =
          Inr [KPICard ''Average Sentiment'' (toFixed_string (kpi_average_sentiment (kpis d)) 2)
                 (Some ''30d rolling'') (kpiTone (kpi_risk_level (kpis d))),
               KPICard ''% Negative'' [Lit ''36.0'', Lit ''%''] (Some ''Twitter/Reddit blend'') ''bad'',
               KPICard ''Predicted Sales Drop'' (toFixed_string (predicted_sales_drop (kpis d)) 1 @ [Lit ''%''])
                 (Some ''Short-term'') (kpiTone (kpi_risk_level (kpis d))),
               KPICard ''Risk Level'' [Lit (kpi_risk_level (kpis d))] None
                 (kpiTone (kpi_risk_level (kpis d)))])
   \<and> (\<not> dash_loading st \<and> data st = Some d \<and> kpi_negative_percentage (kpis d) = Finite 35 \<longrightarrow>
        panel st 4 kpi_cards =
          Inr [KPICard ''Average Sentiment'' (toFixed_string (kpi_average_sentiment (kpis d)) 2)
                 (Some ''30d rolling'') (kpiTone (kpi_risk_level (kpis d))),
               KPICard ''% Negative'' [Lit ''35.0'', Lit ''%''] (Some ''Twitter/Reddit blend'') ''warn'',
               KPICard ''Predicted Sales Drop'' (toFixed_string (predicted_sales_drop (kpis d)) 1 @ [Lit ''%''])
                 (Some ''Short-term'') (kpiTone (kpi_risk_level (kpis d))),
               KPICard ''Risk Level'' [Lit (kpi_risk_level (kpis d))] None
                 (kpiTone (kpi_risk_level (kpis d)))])
   \<and> (greater (Finite x) (Finite 35) = (35 < x))"
  by (simp add: panel_data [OF _ _ kpi_cards_Some] eval)

theorem negative_percentage_tone_witness:
  "\<not> dash_loading \<lparr>data = Some sample_snapshot, dash_error = '''', dash_loading = False\<rparr>
   \<and> data \<lparr>data = Some sample_snapshot, dash_error = '''', dash_loading = False\<rparr> = Some sample_snapshot
   \<and> kpi_negative_percentage (kpis sample_snapshot) = Finite 36
   \<and> panel \<lparr>data = Some sample_snapshot, dash_error = '''', dash_loading = False\<rparr> 4 kpi_cards =
        Inr [KPICard ''Average Sentiment'' [Lit ''-0.25''] (Some ''30d rolling'') ''bad'',
             KPICard ''% Negative'' [Lit ''36.0'', Lit ''%''] (Some ''Twitter/Reddit blend'') ''bad'',
             KPICard ''Predicted Sales Drop'' [Lit ''12.5'', Lit ''%''] (Some ''Short-term'') ''bad'',
             KPICard ''Risk Level'' [Lit ''High''] None ''bad'']
   \<and> \<not> dash_loading \<lparr>data = Some (sample_snapshot\<lparr>kpis := (kpis sample_snapshot)
          \<lparr>kpi_negative_percentage := Finite 35, kpi_risk_level := ''Low''\<rparr>\<rparr>),
        dash_error = '''', dash_loading = False\<rparr>
   \<and> panel \<lparr>data = Some (sample_snapshot\<lparr>kpis := (kpis sample_snapshot)
          \<lparr>kpi_negative_percentage := Finite 35, kpi_risk_level := ''Low''\<rparr>\<rparr>),
        dash_error = '''', dash_loading = False\<rparr> 4 kpi_cards =
        Inr [KPICard ''Average Sentiment'' [Lit ''-0.25''] (Some ''30d rolling'') ''good'',
             KPICard ''% Negative'' [Lit ''35.0'', Lit ''%''] (Some ''Twitter/Reddit blend'') ''warn'',
             KPICard ''Predicted Sales Drop'' [Lit ''12.5'', Lit ''%''] (Some ''Short-term'') ''good'',
             KPICard ''Risk Level'' [Lit ''Low''] None ''good'']"
  using negative_percentage_tone [of
      "\<lparr>data = Some sample_snapshot, dash_error = '''', dash_loading = False\<rparr>" sample_snapshot 36]
    negative_percentage_tone [of
      "\<lparr>data = Some (sample_snapshot\<lparr>kpis := (kpis sample_snapshot)
          \<lparr>kpi_negative_percentage := Finite 35, kpi_risk_level := ''Low''\<rparr>\<rparr>),
        dash_error = '''', dash_loading = False\<rparr>"
      "sample_snapshot\<lparr>kpis := (kpis sample_snapshot)
          \<lparr>kpi_negative_percentage := Finite 35, kpi_risk_level := ''Low''\<rparr>\<rparr>" 35]
  by (simp add: sample_snapshot_def kpiTone_def eval)

text \<open>
  C9.  Every run of \<open>fetchData\<close> issues one request, \<open>GET /get-dashboard-data\<close> with the
  parameters \<open>product_name = "NeoGadget"\<close>, \<open>brand_name = "BlueNova"\<close> and
  \<open>platform = "Twitter"\<close>, whatever the state and the outcome; the effect of the first
  render and the Refresh button both run \<open>fetchData\<close>.  The requests of the Analyze view
  carry \<open>platform = "YouTube"\<close> in every state, so the two views never name the same
  platform.
\<close>

theorem fetchData_fixed_request:
  "fetchData formatError resp =
     [SetLoadingD True, SetErrorD '''',
      Get ''/get-dashboard-data''
        [(''product_name'', ''NeoGadget''), (''brand_name'', ''BlueNova''), (''platform'', ''Twitter'')],
      (case resp of Inl err \<Rightarrow> SetErrorD (formatError err) | Inr d \<Rightarrow> SetData d),
      SetLoadingD False]
   \<and> useEffect_mount formatError resp = fetchData formatError resp
   \<and> Refresh_onClick formatError resp = fetchData formatError resp
   \<and> map_of (request_body st) ''platform'' = Some ''YouTube''
   \<and> map_of [(''product_name'', ''NeoGadget''), (''brand_name'', ''BlueNova''), (''platform'', ''Twitter'')]
        ''platform'' \<noteq> map_of (request_body st) ''platform''"
proof -
  have "platform st = YouTube"
    by (cases "platform st") simp
  then show ?thesis
    by (cases resp) (simp_all add: fetchData_def useEffect_mount_def Refresh_onClick_def request_body_def)
qed

section \<open>Rendering and null\<close>





subsection \<open>Responses as received\<close>

lemma receiver_Present [simp]: "receiver (Present v) = Inr v"
  by (simp add: receiver_def)

lemma receiver_Null [simp]: "receiver Null = Inl TypeError"
  by (simp add: receiver_def)

lemma receiver_Missing [simp]: "receiver Missing = Inl TypeError"
  by (simp add: receiver_def)










text \<open>The run-time handlers on responses of the declared shape are the typed ones.\<close>

lemma submit_rt_typed:
  "submit_rt formatError (cells_of st)
     (map_sum id (\<lambda>s. Some (sentiment_body s)) respA)
     (map_sum id (\<lambda>p. Some (prediction_body p)) respB) =
   cells_of (after_submit formatError st respA respB)"
  by (cases respA; cases respB)
     (simp_all add: submit_rt_def after_submit_def submit_def cells_of_def)

lemma fetchData_rt_typed:
  "fetchData_rt formatError (dashboard_cells_of st) (map_sum id (\<lambda>d. Some (dashboard_body d)) resp) =
   dashboard_cells_of (after_fetchData formatError st resp)"
  by (cases resp)
     (simp_all add: fetchData_rt_def after_fetchData_def fetchData_def dashboard_cells_of_def)


















text \<open>A property that is no receiver may be absent: without \<open>loss_probability\<close> and with
  a \<open>null\<close> risk level the cards are rendered, the probability reading \<open>NaN\<close>.\<close>

lemma toFixed_string_NaN: "toFixed_string NaN f = [Lit ''NaN'']"
  by (simp add: toFixed_string_def)

lemma results_panel_rt_without_probability:
  "results_panel_rt
     \<lparr>loading_rt = False, sentiment_rt = Some (sentiment_body later_sentiment),
      prediction_rt =
        Some ((prediction_body sample_prediction)
                \<lparr>loss_probability_field := Missing, risk_level_field := Null\<rparr>),
      error_rt = ''''\<rparr> =
   Inr [ResultCard ''Sentiment''
          [[Lit ''-0.50'', Lit '' score''],
           [NumberToString (Finite 80), Lit ('' posts '' @ middle_dot), Lit '' '',
            Lit ''60.0'', Lit ''% negative'']],
        ResultCard ''Prediction''
          [[Lit ''2.5'', Lit ''% projected drop''],
           [Lit ''Loss probability '', Lit ''NaN'', Lit (''% '' @ middle_dot @ '' Risk''), Lit '' ''],
           [Lit ''Sentiment is stable.'']],
        Button ''Open Dashboard'' False]"
  by (simp add: results_panel_rt_def results_cards_rt_def sentiment_body_def prediction_body_def
        later_sentiment_def sample_prediction_def ToNumber_def child_number_def child_string_def
        toFixed_string_NaN eval)



section \<open>What a fetch cycle commits\<close>

text \<open>
  C1 (as amended).  Every fetch cycle starts by setting the loading flag and clearing
  the error, then issues its first request, and it writes a result cell only with
  the response of the request that filled it.  After a Dashboard cycle the data is
  the new snapshot or, on failure, the previous one.  After an Analyze cycle the
  sentiment and the prediction are both the previous ones when request A failed and
  both new when both requests succeeded; when request A succeeded and request B
  failed, the new sentiment is stored next to the previous prediction.
\<close>

theorem fetch_cycle_commits:
  "take 3 (submit formatError st respA respB) =
     [SetLoading True, SetError '''', Post ''/analyze-sentiment'' (request_body st)]
   \<and> take 3 (fetchData formatError resp) =
     [SetLoadingD True, SetErrorD '''',
      Get ''/get-dashboard-data''
        [(''product_name'', ''NeoGadget''), (''brand_name'', ''BlueNova''), (''platform'', ''Twitter'')]]
   \<and> sentiment (after_submit formatError st respA respB) =
       (case respA of Inl err \<Rightarrow> sentiment st | Inr s \<Rightarrow> Some s)
   \<and> prediction (after_submit formatError st respA respB) =
       (case respA of
          Inl err \<Rightarrow> prediction st
        | Inr s \<Rightarrow> (case respB of Inl err \<Rightarrow> prediction st | Inr p \<Rightarrow> Some p))
   \<and> data (after_fetchData formatError dst resp) =
       (case resp of Inl err \<Rightarrow> data dst | Inr d \<Rightarrow> Some d)"
  by (cases respA; cases respB; cases resp)
     (simp_all add: submit_def fetchData_def after_submit_def after_fetchData_def)

text \<open>
  C1, counterexample.  The claim as stated fails on the second of two submissions,
  when the first one stored a sentiment and a prediction and the second one gets a
  new sentiment and then a failure of request B: loading is over and the results
  panel shows the new sentiment beside the prediction of the first submission.
\<close>

theorem new_sentiment_with_old_prediction:
  "sentiment (after_submit (\<lambda>u::unit. ''Request failed'')
       (after_submit (\<lambda>u::unit. ''Request failed'') (AnalyzePage_init sample_range)
          (Inr sample_sentiment) (Inr sample_prediction))
       (Inr later_sentiment) (Inl ())) = Some later_sentiment
   \<and> prediction (after_submit (\<lambda>u::unit. ''Request failed'')
       (after_submit (\<lambda>u::unit. ''Request failed'') (AnalyzePage_init sample_range)
          (Inr sample_sentiment) (Inr sample_prediction))
       (Inr later_sentiment) (Inl ())) = Some sample_prediction
   \<and> later_sentiment \<noteq> sample_sentiment
   \<and> results_panel (after_submit (\<lambda>u::unit. ''Request failed'')
       (after_submit (\<lambda>u::unit. ''Request failed'') (AnalyzePage_init sample_range)
          (Inr sample_sentiment) (Inr sample_prediction))
       (Inr later_sentiment) (Inl ())) =
     Inr [ResultCard ''Sentiment''
            [[Lit ''-0.50'', Lit '' score''],
             [NumberToString (Finite 80), Lit ('' posts '' @ middle_dot), Lit '' '',
              Lit ''60.0'', Lit ''% negative'']],
          ResultCard ''Prediction''
            [[Lit ''2.5'', Lit ''% projected drop''],
             [Lit ''Loss probability '', Lit ''12.5'',
              Lit (''% '' @ middle_dot @ '' Risk''), Lit '' '', Lit ''Low''],
             [Lit ''Sentiment is stable.'']],
          Button ''Open Dashboard'' False]"
  by (simp add: after_submit_def submit_def AnalyzePage_init_def results_panel_def results_cards_def
      sample_sentiment_def later_sentiment_def sample_prediction_def eval)

section \<open>What the results panel shows\<close>

text \<open>
  C5.  After a submission in which both requests succeeded, the results panel shows
  the two cards, built from the two responses just returned and from nothing else:
  the average sentiment through \<open>toFixed(2)\<close> followed by \<open>" score"\<close>, the predicted drop
  through \<open>toFixed(1)\<close> followed by \<open>"% projected drop"\<close>, the loss probability times 100
  through \<open>toFixed(1)\<close> followed by \<open>"%"\<close>.  For the doubles that 0.42, 12.345 and 0.5
  denote, these read \<open>0.42 score\<close>, \<open>12.3% projected drop\<close> and \<open>50.0%\<close>.
\<close>

theorem results_render_returned_values:
  "results_panel (after_submit formatError st (Inr s) (Inr p)) =
     Inr [ResultCard ''Sentiment''
            [toFixed_string (average_sentiment s) 2 @ [Lit '' score''],
             [NumberToString (total_posts s), Lit ('' posts '' @ middle_dot), Lit '' ''] @
             toFixed_string (negative_percentage s) 1 @ [Lit ''% negative'']],
          ResultCard ''Prediction''
            [toFixed_string (predicted_drop_percentage p) 1 @ [Lit ''% projected drop''],
             [Lit ''Loss probability ''] @
             toFixed_string (multiply (loss_probability p) (Finite 100)) 1 @
             [Lit (''% '' @ middle_dot @ '' Risk''), Lit '' '', Lit (risk_level p)],
             [Lit (explanation p)]],
          Button ''Open Dashboard'' False]
   \<and> results_panel (after_submit formatError st (Inr decimal_sentiment) (Inr decimal_prediction)) =
     Inr [ResultCard ''Sentiment''
            [[Lit ''0.42'', Lit '' score''],
             [NumberToString (Finite 120), Lit ('' posts '' @ middle_dot), Lit '' '',
              Lit ''10.0'', Lit ''% negative'']],
          ResultCard ''Prediction''
            [[Lit ''12.3'', Lit ''% projected drop''],
             [Lit ''Loss probability '', Lit ''50.0'',
              Lit (''% '' @ middle_dot @ '' Risk''), Lit '' '', Lit ''Medium''],
             [Lit ''Negative share is rising.'']],
          Button ''Open Dashboard'' False]
   \<and> literal_text (toFixed_string (average_sentiment decimal_sentiment) 2 @ [Lit '' score''])
       = Some ''0.42 score''
   \<and> literal_text (toFixed_string (predicted_drop_percentage decimal_prediction) 1 @
         [Lit ''% projected drop''])
       = Some ''12.3% projected drop''
   \<and> literal_text (toFixed_string (multiply (loss_probability decimal_prediction) (Finite 100)) 1 @
         [Lit ''%''])
       = Some ''50.0%''"
proof -
  have stored: "\<not> loading (after_submit formatError st (Inr s') (Inr p'))"
    "sentiment (after_submit formatError st (Inr s') (Inr p')) = Some s'"
    "prediction (after_submit formatError st (Inr s') (Inr p')) = Some p'" for s' p'
    by (simp_all add: after_submit_def submit_def)
  have general: "results_panel (after_submit formatError st (Inr s') (Inr p')) =
     Inr [ResultCard ''Sentiment''
            [toFixed_string (average_sentiment s') 2 @ [Lit '' score''],
             [NumberToString (total_posts s'), Lit ('' posts '' @ middle_dot), Lit '' ''] @
             toFixed_string (negative_percentage s') 1 @ [Lit ''% negative'']],
          ResultCard ''Prediction''
            [toFixed_string (predicted_drop_percentage p') 1 @ [Lit ''% projected drop''],
             [Lit ''Loss probability ''] @
             toFixed_string (multiply (loss_probability p') (Finite 100)) 1 @
             [Lit (''% '' @ middle_dot @ '' Risk''), Lit '' '', Lit (risk_level p')],
             [Lit (explanation p')]],
          Button ''Open Dashboard'' False]" for s' p'
    using results_panel_both [OF stored(1) stored(2) stored(3)] results_cards_Some [OF stored(2) stored(3)]
    by simp
  have shown: "toFixed_string (average_sentiment decimal_sentiment) 2 = [Lit ''0.42'']"
    "toFixed_string (negative_percentage decimal_sentiment) 1 = [Lit ''10.0'']"
    "toFixed_string (predicted_drop_percentage decimal_prediction) 1 = [Lit ''12.3'']"
    "toFixed_string (multiply (loss_probability decimal_prediction) (Finite 100)) 1 = [Lit ''50.0'']"
    by (simp_all add: decimal_sentiment_def decimal_prediction_def eval)
  have fields: "total_posts decimal_sentiment = Finite 120"
    "risk_level decimal_prediction = ''Medium''"
    "explanation decimal_prediction = ''Negative share is rising.''"
    by (simp_all add: decimal_sentiment_def decimal_prediction_def)
  show ?thesis
    using shown by (simp add: general fields)
qed

section \<open>The default date range\<close>

text \<open>
  The year of a time value is, in the language's words, the largest \<open>y\<close> whose first day
  is not after it.  \<open>YearFromDay\<close> computes it from an estimate; that it is this year
  follows from the bounds on \<open>DayFromYear\<close> around the mean year and from its growth.
\<close>

lemma DayFromYear_bounds:
  "146097 * (y - 1970) - 506 \<le> 400 * DayFromYear y"
  "400 * DayFromYear y \<le> 146097 * (y - 1970) + 589"
proof -
  define a where "a = (y - 1969) div 4"
  define b where "b = (y - 1901) div 100"
  define c where "c = (y - 1601) div 400"
  have a: "4 * a \<le> y - 1969" "y - 1969 \<le> 4 * a + 3"
    unfolding a_def by simp_all
  have b: "100 * b \<le> y - 1901" "y - 1901 \<le> 100 * b + 99"
    unfolding b_def by simp_all
  have c: "400 * c \<le> y - 1601" "y - 1601 \<le> 400 * c + 399"
    unfolding c_def by simp_all
  have eq: "DayFromYear y = 365 * (y - 1970) + a - b + c"
    by (simp add: DayFromYear_def a_def b_def c_def)
  have "100 * (y - 1972) \<le> 400 * a" using a(2) by simp
  moreover have "400 * b \<le> 4 * (y - 1901)" using b(1) by simp
  moreover have "y - 2000 \<le> 400 * c" using c(2) by simp
  ultimately show "146097 * (y - 1970) - 506 \<le> 400 * DayFromYear y"
    unfolding eq by simp
  have "400 * a \<le> 100 * (y - 1969)" using a(1) by simp
  moreover have "4 * (y - 2000) \<le> 400 * b" using b(2) by simp
  moreover have "400 * c \<le> y - 1601" using c(1) by simp
  ultimately show "400 * DayFromYear y \<le> 146097 * (y - 1970) + 589"
    unfolding eq by simp
qed

lemma DayFromYear_less_Suc: "DayFromYear y < DayFromYear (y + 1)"
proof -
  have "(y - 1969) div 4 \<le> (y + 1 - 1969) div 4"
    by (intro zdiv_mono1) simp_all
  moreover have "(y + 1 - 1901) div 100 \<le> (y - 1901) div 100 + 1"
  proof -
    have "(y + 1 - 1901) div 100 \<le> (y - 1901 + 100) div 100"
      by (intro zdiv_mono1) simp_all
    then show ?thesis by simp
  qed
  moreover have "(y - 1601) div 400 \<le> (y + 1 - 1601) div 400"
    by (intro zdiv_mono1) simp_all
  ultimately show ?thesis
    by (simp add: DayFromYear_def)
qed

lemma DayFromYear_mono: "y \<le> z \<Longrightarrow> DayFromYear y \<le> DayFromYear z"
proof -
  have "DayFromYear y \<le> DayFromYear (y + int n)" for n
  proof (induction n)
    case 0
    then show ?case by simp
  next
    case (Suc n)
    have step: "DayFromYear (y + int n) < DayFromYear (y + int n + 1)"
      by (rule DayFromYear_less_Suc)
    have next_year: "y + int (Suc n) = y + int n + 1"
      by simp
    from Suc step have "DayFromYear y \<le> DayFromYear (y + int n + 1)"
      by linarith
    then show ?case
      unfolding next_year .
  qed
  from this [of "nat (z - y)"] show "y \<le> z \<Longrightarrow> DayFromYear y \<le> DayFromYear z"
    by simp
qed

lemma YearFromDay_bracket:
  "DayFromYear (YearFromDay d) \<le> d \<and> d < DayFromYear (YearFromDay d + 1)"
proof -
  define q where "q = (d * 400) div 146097"
  define y where "y = 1970 + q"
  have q: "146097 * q \<le> d * 400" "d * 400 \<le> 146097 * q + 146096"
    unfolding q_def by simp_all
  have "146097 * (y + 2 - 1970) - 506 \<le> 400 * DayFromYear (y + 2)"
    by (rule DayFromYear_bounds)
  moreover have "146097 * (y + 2 - 1970) = 146097 * q + 292194"
    by (simp add: y_def)
  ultimately have "400 * d < 400 * DayFromYear (y + 2)"
    using q(2) by linarith
  then have up: "d < DayFromYear (y + 2)"
    by simp
  have "400 * DayFromYear (y - 1) \<le> 146097 * (y - 1 - 1970) + 589"
    by (rule DayFromYear_bounds)
  moreover have "146097 * (y - 1 - 1970) = 146097 * q - 146097"
    by (simp add: y_def)
  ultimately have "400 * DayFromYear (y - 1) \<le> 400 * d"
    using q(1) by linarith
  then have down: "DayFromYear (y - 1) \<le> d"
    by simp
  have choice: "YearFromDay d =
      (if DayFromYear (y + 1) \<le> d then y + 1 else if DayFromYear y \<le> d then y else y - 1)"
    by (simp add: YearFromDay_def y_def q_def Let_def)
  show ?thesis
  proof (cases "DayFromYear (y + 1) \<le> d")
    case True
    then have "YearFromDay d = y + 1" by (simp add: choice)
    with True up show ?thesis by (simp add: algebra_simps)
  next
    case False
    show ?thesis
    proof (cases "DayFromYear y \<le> d")
      case True
      with False have "YearFromDay d = y" by (simp add: choice)
      with True False show ?thesis by simp
    next
      case no: False
      with False have "YearFromDay d = y - 1" by (simp add: choice)
      with no down show ?thesis by simp
    qed
  qed
qed

lemma YearFromDay_greatest:
  assumes "DayFromYear z \<le> d"
  shows "z \<le> YearFromDay d"
proof (rule ccontr)
  assume "\<not> z \<le> YearFromDay d"
  then have "YearFromDay d + 1 \<le> z" by simp
  then have "DayFromYear (YearFromDay d + 1) \<le> DayFromYear z"
    by (rule DayFromYear_mono)
  with assms YearFromDay_bracket [of d] show False by simp
qed

lemma le_div_iff_int:
  fixes a t m :: int
  assumes "0 < m"
  shows "(a \<le> t div m) = (m * a \<le> t)"
proof
  assume "a \<le> t div m"
  then have "m * a \<le> m * (t div m)"
    using assms by (simp add: mult_left_mono)
  also have "m * (t div m) = t - t mod m"
    by (simp add: minus_mod_eq_mult_div)
  also have "t - t mod m \<le> t"
    using assms by simp
  finally show "m * a \<le> t" .
next
  assume "m * a \<le> t"
  then have "(m * a) div m \<le> t div m"
    using assms by (rule zdiv_mono1)
  then show "a \<le> t div m"
    using assms by simp
qed

lemma YearFromTime_greatest:
  "msPerDay * DayFromYear (YearFromTime t) \<le> t
   \<and> (msPerDay * DayFromYear z \<le> t \<longrightarrow> z \<le> YearFromTime t)"
proof -
  have day: "(a \<le> Day t) = (msPerDay * a \<le> t)" for a
    unfolding Day_def by (rule le_div_iff_int) (simp add: msPerDay_def)
  show ?thesis
    using YearFromDay_bracket [of "Day t"] YearFromDay_greatest [of z "Day t"]
    by (simp add: YearFromTime_def day [symmetric])
qed

lemma MonthFromTime_range: "0 \<le> MonthFromTime t \<and> MonthFromTime t \<le> 11"
  by (simp add: MonthFromTime_def Let_def)

lemma DateFromTime_eq:
  "DateFromTime t = DayWithinYear t - DaysBeforeMonth (MonthFromTime t) (InLeapYear t) + 1"
  by (simp add: DateFromTime_def MonthFromTime_def DaysBeforeMonth_def Let_def)

lemma MakeDay_of_fields:
  "MakeDay (YearFromTime t) (MonthFromTime t) dt = Day t + (dt - DateFromTime t)"
proof -
  have "MonthFromTime t div 12 = 0" "MonthFromTime t mod 12 = MonthFromTime t"
    using MonthFromTime_range [of t] by simp_all
  then show ?thesis
    by (simp add: MakeDay_def DateFromTime_eq DayWithinYear_def InLeapYear_def)
qed

text \<open>
  Where the offset of local time never changes, \<open>setDate\<close> moves a date by whole days:
  by the difference between the new day of the month and the local one it had.
\<close>

lemma setDate_constant_offset:
  assumes "\<And>t isUTC. LocalTZA t isUTC = c"
  shows "setDate LocalTZA tv dt = TimeClip (tv + (dt - getDate LocalTZA tv) * msPerDay)"
proof -
  have "MakeDate (Day (tv + c) + (dt - DateFromTime (tv + c))) (TimeWithinDay (tv + c)) =
        tv + c + (dt - DateFromTime (tv + c)) * msPerDay"
    by (simp add: MakeDate_def Day_def TimeWithinDay_def algebra_simps)
  then show ?thesis
    by (simp add: setDate_def getDate_def LocalTime_def UTC_def assms MakeDay_of_fields Let_def)
qed

text \<open>
  So with a constant offset and both clock readings on the same local day of the
  month, \<open>start\<close> is the instant seven times 24 hours before the second reading.
\<close>

lemma start_seven_days_before:
  assumes "\<And>t isUTC. LocalTZA t isUTC = c"
    and "getDate LocalTZA now2 = getDate LocalTZA now1"
  shows "setDate LocalTZA now2 (getDate LocalTZA now1 - 7) = TimeClip (now2 - 7 * msPerDay)"
  by (simp add: setDate_constant_offset [OF assms(1)] assms(2))

lemma defaultDates_UTC_sample:
  "defaultDates UTC_zone 1709467200000 1709467200000 =
     Inr \<lparr>range_start = ''2024-02-25'', range_end = ''2024-03-03''\<rparr>"
  by code_simp

text \<open>
  C8.  The default range is meant to span seven days and to end today.  The code
  misses that: \<open>getDate\<close> and \<open>setDate\<close> count days on the local calendar, \<open>toISOString\<close>
  prints the UTC date, and the clock is read twice.

  In Germany at 2024-03-31T23:30Z the local date is 1 April 2024 (month 3 counted
  from 0, day 1), 01:30 in summer time.  \<open>setDate(1 - 7)\<close> gives 25 March 01:30 local
  time, which is winter time: 2024-03-25T00:30Z.  The range is 2024-03-25 to
  2024-03-31: six days, ending on the day before the local date.

  In Japan at 2024-03-31T23:00Z the local date is 1 April 2024; the range is
  2024-03-24 to 2024-03-31: seven days, ending on the day before the local date.

  On UTC, with the clock read one millisecond before and at the start of 1 February
  2024, \<open>end\<close> is 31 January and \<open>start\<close> is day 31 - 7 of February: the range starts
  on 2024-02-24 and ends on 2024-01-31.
\<close>

theorem defaultDates_mixes_local_and_UTC:
  "defaultDates Europe_Berlin_2024 1711927800000 1711927800000 =
     Inr \<lparr>range_start = ''2024-03-25'', range_end = ''2024-03-31''\<rparr>
   \<and> AnalyzePage_first_render Europe_Berlin_2024 1711927800000 1711927800000 =
     Inr (AnalyzePage_init \<lparr>range_start = ''2024-03-25'', range_end = ''2024-03-31''\<rparr>)
   \<and> toISOString (Some 1711927800000) = Inr ''2024-03-31T23:30:00.000Z''
   \<and> YearFromTime (LocalTime Europe_Berlin_2024 1711927800000) = 2024
   \<and> MonthFromTime (LocalTime Europe_Berlin_2024 1711927800000) = 3
   \<and> getDate Europe_Berlin_2024 1711927800000 = 1
   \<and> setDate Europe_Berlin_2024 1711927800000 (getDate Europe_Berlin_2024 1711927800000 - 7) =
       Some 1711326600000
   \<and> toISOString (Some 1711326600000) = Inr ''2024-03-25T00:30:00.000Z''
   \<and> Day 1711927800000 - Day 1711326600000 = 6
   \<and> defaultDates Asia_Tokyo 1711926000000 1711926000000 =
     Inr \<lparr>range_start = ''2024-03-24'', range_end = ''2024-03-31''\<rparr>
   \<and> MonthFromTime (LocalTime Asia_Tokyo 1711926000000) = 3
   \<and> getDate Asia_Tokyo 1711926000000 = 1
   \<and> toISOString (Some 1706745599999) = Inr ''2024-01-31T23:59:59.999Z''
   \<and> toISOString (Some 1706745600000) = Inr ''2024-02-01T00:00:00.000Z''
   \<and> defaultDates UTC_zone 1706745599999 1706745600000 =
     Inr \<lparr>range_start = ''2024-02-24'', range_end = ''2024-01-31''\<rparr>"
  by code_simp

end
